theory Spec2Isabelle
  imports Main
begin

section \<open>The introspection and data interfaces the normative types are written against\<close>

text \<open>
  The normative types are a thin layer over the pvData framework. The framework itself is not
  part of the sources verified here; what the normative types use of it is modelled below and
  each such definition says so.
\<close>

datatype error = NullDereference | OutOfRange | InvalidArgument

text \<open>The scalar type tags, in the order of the framework's enumeration.\<close>

datatype ScalarType =
    pvBoolean | pvByte | pvShort | pvInt | pvLong
  | pvUByte | pvUShort | pvUInt | pvULong
  | pvFloat | pvDouble | pvString

text \<open>
  Modelled from the spec: a schema (Structure) is an ordered mapping from field name to field
  type descriptor, identified by a string tag; field type descriptors are scalars, scalar
  arrays, nested structures, tagged unions and arrays of structures or unions.
\<close>

datatype Field =
    Scalar ScalarType
  | ScalarArray ScalarType
  | StructureField Structure
  | StructureArray Structure
  | UnionField Union
  | UnionArray Union
and Structure = Structure (getID: string) (getMembers: "(string \<times> Field) list")
and Union = Union string "(string \<times> Field) list"

text \<open>
  Modelled from the spec: lookup of a field by name in a schema; the first field of that name
  is returned and an absent name gives the empty handle.
\<close>

definition getField :: "Structure \<Rightarrow> string \<Rightarrow> Field option" where
  "getField st name = map_of (getMembers st) name"

text \<open>
  Modelled from the spec: lookup by name and expected type, empty on mismatch or absence
  (\<open>getField<ScalarArray>\<close> and \<open>getField<Scalar>\<close>); the handle that comes back gives
  the element type (\<open>getElementType\<close>) or the scalar type (\<open>getScalarType\<close>).
\<close>

definition getField_ScalarArray :: "Structure \<Rightarrow> string \<Rightarrow> ScalarType option" where
  "getField_ScalarArray st name =
     (case getField st name of Some (ScalarArray t) \<Rightarrow> Some t | _ \<Rightarrow> None)"

definition getField_Scalar :: "Structure \<Rightarrow> string \<Rightarrow> ScalarType option" where
  "getField_Scalar st name =
     (case getField st name of Some (Scalar t) \<Rightarrow> Some t | _ \<Rightarrow> None)"

text \<open>
  The predicates of \<open>NTField\<close> that recognise the standard alarm, time stamp and display
  sub-schemas, and the standard sub-schemas of \<open>StandardField\<close>, are parameters.
\<close>

record NTField =
  isAlarm :: "Field \<Rightarrow> bool"
  isTimeStamp :: "Field \<Rightarrow> bool"
  isDisplay :: "Field \<Rightarrow> bool"

record StandardField =
  std_alarm :: Structure
  std_timeStamp :: Structure
  std_display :: Structure

text \<open>
  Modelled from the spec: a structured value instance conforms to exactly one schema. Only
  the schema of an instance matters to the code below, so an instance is its schema and a
  sub-field handle is the descriptor of that sub-field; the values held are left out.
\<close>

datatype PVStructure = PVStructure (getStructure: Structure)

datatype PVField = PVField (getFieldOf: Field)

text \<open>
  Modelled from the spec: lookup of a sub-field of an instance by name, empty when the schema
  has no field of that name.
\<close>

definition getSubField :: "PVStructure \<Rightarrow> string \<Rightarrow> PVField option" where
  "getSubField pv name = map_option PVField (getField (getStructure pv) name)"

text \<open>The classes of value handles a typed lookup can ask for.\<close>

datatype PVT =
    PVField_t
  | PVScalar_t
  | PVScalarValue_t ScalarType
  | PVScalarArray_t
  | PVValueArray_t ScalarType
  | PVStructure_t
  | PVStructureArray_t
  | PVUnion_t
  | PVUnionArray_t

abbreviation "PVString \<equiv> PVScalarValue_t pvString"
abbreviation "PVInt \<equiv> PVScalarValue_t pvInt"
abbreviation "PVLong \<equiv> PVScalarValue_t pvLong"
abbreviation "PVStringArray \<equiv> PVValueArray_t pvString"
abbreviation "PVBooleanArray \<equiv> PVValueArray_t pvBoolean"
abbreviation "PVIntArray \<equiv> PVValueArray_t pvInt"
abbreviation "PVLongArray \<equiv> PVValueArray_t pvLong"

text \<open>
  Modelled from the spec: the runtime class of a value handle is fixed by the descriptor of
  its field, and a class is an instance of itself and of its base classes.
\<close>

fun instance_of :: "Field \<Rightarrow> PVT \<Rightarrow> bool" where
  "instance_of f PVField_t = True"
| "instance_of (Scalar t) PVScalar_t = True"
| "instance_of (Scalar t) (PVScalarValue_t t') = (t = t')"
| "instance_of (ScalarArray t) PVScalarArray_t = True"
| "instance_of (ScalarArray t) (PVValueArray_t t') = (t = t')"
| "instance_of (StructureField s) PVStructure_t = True"
| "instance_of (StructureArray s) PVStructureArray_t = True"
| "instance_of (UnionField u) PVUnion_t = True"
| "instance_of (UnionArray u) PVUnionArray_t = True"
| "instance_of f c = False"

text \<open>The checked downcast: the same handle when the class fits, the empty handle otherwise.\<close>

definition dynamic_pointer_cast :: "PVT \<Rightarrow> PVField \<Rightarrow> PVField option" where
  "dynamic_pointer_cast c p = (if instance_of (getFieldOf p) c then Some p else None)"

text \<open>
  Modelled from the spec: the typed sub-field lookup of an instance (get sub-field by name and
  expected type, empty on mismatch or absence).
\<close>

definition getSubField_as :: "PVT \<Rightarrow> PVStructure \<Rightarrow> string \<Rightarrow> PVField option" where
  "getSubField_as c pv name =
     (case getSubField pv name of
        Some p \<Rightarrow> dynamic_pointer_cast c p
      | None \<Rightarrow> None)"

section \<open>NTScalarMultiChannel: the compatibility predicate\<close>

text \<open>
  \<open>NTScalarMultiChannel::isCompatible(StructureConstPtr)\<close>. A handle that may be null is an
  option. Every check is in the order of the source and returns at the first failure.
\<close>

definition isCompatible :: "NTField \<Rightarrow> Structure option \<Rightarrow> bool" where
  "isCompatible ntField structure =
    (case structure of
       None \<Rightarrow> False
     | Some st \<Rightarrow>
        if getField_ScalarArray st ''value'' = None then False
        else if getField_ScalarArray st ''channelName'' = None then False
        else if getField_ScalarArray st ''channelName'' \<noteq> Some pvString then False
        else if getField st ''severity'' \<noteq> None \<and>
                (getField_ScalarArray st ''severity'' = None \<or>
                 getField_ScalarArray st ''severity'' \<noteq> Some pvInt) then False
        else if getField st ''status'' \<noteq> None \<and>
                (getField_ScalarArray st ''status'' = None \<or>
                 getField_ScalarArray st ''status'' \<noteq> Some pvInt) then False
        else if getField st ''message'' \<noteq> None \<and>
                (getField_ScalarArray st ''message'' = None \<or>
                 getField_ScalarArray st ''message'' \<noteq> Some pvString) then False
        else if getField st ''secondsPastEpoch'' \<noteq> None \<and>
                (getField_ScalarArray st ''secondsPastEpoch'' = None \<or>
                 getField_ScalarArray st ''secondsPastEpoch'' \<noteq> Some pvLong) then False
        else if getField st ''nanoseconds'' \<noteq> None \<and>
                (getField_ScalarArray st ''nanoseconds'' = None \<or>
                 getField_ScalarArray st ''nanoseconds'' \<noteq> Some pvInt) then False
        else if getField st ''userTag'' \<noteq> None \<and>
                (getField_ScalarArray st ''userTag'' = None \<or>
                 getField_ScalarArray st ''userTag'' \<noteq> Some pvInt) then False
        else if getField st ''descriptor'' \<noteq> None \<and>
                (getField_Scalar st ''descriptor'' = None \<or>
                 getField_Scalar st ''descriptor'' \<noteq> Some pvString) then False
        else if (case getField st ''alarm'' of
                   Some field \<Rightarrow> \<not> isAlarm ntField field | None \<Rightarrow> False) then False
        else if (case getField st ''timeStamp'' of
                   Some field \<Rightarrow> \<not> isTimeStamp ntField field | None \<Rightarrow> False) then False
        else True)"

text \<open>\<open>NTScalarMultiChannel::isCompatible(PVStructurePtr)\<close>.\<close>

definition isCompatible_pv :: "NTField \<Rightarrow> PVStructure option \<Rightarrow> bool" where
  "isCompatible_pv ntField pvStructure =
    (case pvStructure of
       None \<Rightarrow> False
     | Some pv \<Rightarrow> isCompatible ntField (Some (getStructure pv)))"

section \<open>NTScalarMultiChannelBuilder\<close>

record NTScalarMultiChannelBuilder =
  valueType :: ScalarType
  descriptor :: bool
  alarm :: bool
  timeStamp :: bool
  severity :: bool
  status :: bool
  message :: bool
  secondsPastEpoch :: bool
  nanoseconds :: bool
  userTag :: bool
  isConnected :: bool
  extraFieldNames :: "string list"
  extraFields :: "Field list"

definition "value" :: "ScalarType \<Rightarrow> NTScalarMultiChannelBuilder \<Rightarrow> NTScalarMultiChannelBuilder" where
  "value scalarType b = b\<lparr>valueType := scalarType\<rparr>"

definition addDescriptor :: "NTScalarMultiChannelBuilder \<Rightarrow> NTScalarMultiChannelBuilder" where
  "addDescriptor b = b\<lparr>descriptor := True\<rparr>"

definition addAlarm :: "NTScalarMultiChannelBuilder \<Rightarrow> NTScalarMultiChannelBuilder" where
  "addAlarm b = b\<lparr>alarm := True\<rparr>"

definition addTimeStamp :: "NTScalarMultiChannelBuilder \<Rightarrow> NTScalarMultiChannelBuilder" where
  "addTimeStamp b = b\<lparr>timeStamp := True\<rparr>"

definition addSeverity :: "NTScalarMultiChannelBuilder \<Rightarrow> NTScalarMultiChannelBuilder" where
  "addSeverity b = b\<lparr>severity := True\<rparr>"

definition addStatus :: "NTScalarMultiChannelBuilder \<Rightarrow> NTScalarMultiChannelBuilder" where
  "addStatus b = b\<lparr>status := True\<rparr>"

definition addMessage :: "NTScalarMultiChannelBuilder \<Rightarrow> NTScalarMultiChannelBuilder" where
  "addMessage b = b\<lparr>message := True\<rparr>"

definition addSecondsPastEpoch :: "NTScalarMultiChannelBuilder \<Rightarrow> NTScalarMultiChannelBuilder" where
  "addSecondsPastEpoch b = b\<lparr>secondsPastEpoch := True\<rparr>"

definition addNanoseconds :: "NTScalarMultiChannelBuilder \<Rightarrow> NTScalarMultiChannelBuilder" where
  "addNanoseconds b = b\<lparr>nanoseconds := True\<rparr>"

definition addUserTag :: "NTScalarMultiChannelBuilder \<Rightarrow> NTScalarMultiChannelBuilder" where
  "addUserTag b = b\<lparr>userTag := True\<rparr>"

definition addIsConnected :: "NTScalarMultiChannelBuilder \<Rightarrow> NTScalarMultiChannelBuilder" where
  "addIsConnected b = b\<lparr>isConnected := True\<rparr>"

text \<open>\<open>add(name, field)\<close> pushes onto both vectors.\<close>

definition add :: "string \<Rightarrow> Field \<Rightarrow> NTScalarMultiChannelBuilder \<Rightarrow> NTScalarMultiChannelBuilder" where
  "add name field b =
     b\<lparr>extraFields := extraFields b @ [field], extraFieldNames := extraFieldNames b @ [name]\<rparr>"

definition reset :: "NTScalarMultiChannelBuilder \<Rightarrow> NTScalarMultiChannelBuilder" where
  "reset b =
     b\<lparr>extraFieldNames := [], extraFields := [], valueType := pvDouble,
       descriptor := False, alarm := False, timeStamp := False, severity := False,
       status := False, message := False, secondsPastEpoch := False,
       nanoseconds := False, userTag := False, isConnected := True\<rparr>"

text \<open>
  The constructor initialises \<open>valueType\<close> and calls \<open>reset\<close>; the argument stands for the
  members the initialiser list leaves unset.
\<close>

definition new_NTScalarMultiChannelBuilder ::
  "NTScalarMultiChannelBuilder \<Rightarrow> NTScalarMultiChannelBuilder" where
  "new_NTScalarMultiChannelBuilder uninit = reset (uninit\<lparr>valueType := pvDouble\<rparr>)"

definition URI :: string where
  "URI = ''epics:nt/NTScalarMultiChannel:1.0''"

text \<open>
  The two arrays \<open>names\<close> and \<open>fields\<close> of \<open>createStructure\<close> (here \<open>flds\<close>) and the
  index \<open>ind\<close> into them. A fresh array of \<open>n\<close> strings holds empty strings, a fresh array of \<open>n\<close> field
  handles holds null handles. Writing outside an array is an error of the model.
\<close>

type_synonym arrays = "string list \<times> Field option list \<times> nat"

definition put :: "string \<Rightarrow> Field \<Rightarrow> arrays \<Rightarrow> error + arrays" where
  "put name field s =
     (case s of (names, flds, ind) \<Rightarrow>
        if ind < length names \<and> ind < length flds
        then Inr (names[ind := name], flds[ind := Some field], Suc ind)
        else Inl OutOfRange)"

definition when_set :: "bool \<Rightarrow> (arrays \<Rightarrow> error + arrays) \<Rightarrow> arrays \<Rightarrow> error + arrays" where
  "when_set c f s = (if c then f s else Inr s)"

fun run :: "(arrays \<Rightarrow> error + arrays) list \<Rightarrow> arrays \<Rightarrow> error + arrays" where
  "run [] s = Inr s"
| "run (f # fs) s = (case f s of Inl e \<Rightarrow> Inl e | Inr s' \<Rightarrow> run fs s')"

text \<open>The loop \<open>for (size_t i = 0; i < extraCount; i++)\<close>, started at \<open>i\<close>.\<close>

function extras_loop ::
  "nat \<Rightarrow> nat \<Rightarrow> string list \<Rightarrow> Field list \<Rightarrow> arrays \<Rightarrow> error + arrays" where
  "extras_loop i extraCount efn ef s =
     (if i < extraCount then
        (if i < length efn \<and> i < length ef then
           (case put (efn ! i) (ef ! i) s of
              Inl e \<Rightarrow> Inl e
            | Inr s' \<Rightarrow> extras_loop (Suc i) extraCount efn ef s')
         else Inl OutOfRange)
      else Inr s)"
  by pat_completeness auto
termination
  by (relation "measure (\<lambda>(i, extraCount, efn, ef, s). extraCount - i)") auto

text \<open>
  Modelled from the spec: the framework's structure factory makes the schema with the given
  tag and the given fields in the given order; a null field handle is an invalid argument.
\<close>

definition fieldCreate_createStructure ::
  "string \<Rightarrow> string list \<Rightarrow> Field option list \<Rightarrow> error + Structure" where
  "fieldCreate_createStructure ident names flds =
     (if None \<in> set flds \<or> length names \<noteq> length flds then Inl InvalidArgument
      else Inr (Structure ident (zip names (map the flds))))"

text \<open>
  \<open>NTScalarMultiChannelBuilder::createStructure\<close>: the schema, or the error, and the builder
  afterwards. \<open>reset\<close> is the last statement before the return, so it runs only when the
  structure was made.
\<close>

definition createStructure ::
  "StandardField \<Rightarrow> NTScalarMultiChannelBuilder \<Rightarrow> (error + Structure) \<times> NTScalarMultiChannelBuilder" where
  "createStructure standardField b =
    (let extraCount = length (extraFieldNames b);
         nfields = 2 + extraCount
           + (if descriptor b then 1 else 0)
           + (if alarm b then 1 else 0)
           + (if timeStamp b then 1 else 0)
           + (if severity b then 1 else 0)
           + (if status b then 1 else 0)
           + (if message b then 1 else 0)
           + (if secondsPastEpoch b then 1 else 0)
           + (if nanoseconds b then 1 else 0)
           + (if userTag b then 1 else 0)
           + (if isConnected b then 1 else 0)
     in case run
          [put ''value'' (ScalarArray (valueType b)),
           put ''channelName'' (ScalarArray pvString),
           when_set (descriptor b) (put ''descriptor'' (Scalar pvString)),
           when_set (alarm b) (put ''alarm'' (StructureField (std_alarm standardField))),
           when_set (timeStamp b) (put ''timeStamp'' (StructureField (std_timeStamp standardField))),
           when_set (severity b) (put ''severity'' (ScalarArray pvInt)),
           when_set (status b) (put ''status'' (ScalarArray pvInt)),
           when_set (message b) (put ''message'' (ScalarArray pvString)),
           when_set (secondsPastEpoch b) (put ''secondsPastEpoch'' (ScalarArray pvLong)),
           when_set (nanoseconds b) (put ''nanoseconds'' (ScalarArray pvInt)),
           when_set (userTag b) (put ''userTag'' (ScalarArray pvInt)),
           when_set (isConnected b) (put ''isConnected'' (ScalarArray pvBoolean)),
           extras_loop 0 extraCount (extraFieldNames b) (extraFields b)]
          (replicate nfields [], replicate nfields None, 0) of
        Inl e \<Rightarrow> (Inl e, b)
      | Inr (names, flds, ind) \<Rightarrow>
          (case fieldCreate_createStructure URI names flds of
             Inl e \<Rightarrow> (Inl e, b)
           | Inr st \<Rightarrow> (Inr st, reset b)))"

text \<open>Modelled from the spec: the instance factory allocates an instance of the schema.\<close>

definition pvDataCreate_createPVStructure :: "Structure \<Rightarrow> PVStructure" where
  "pvDataCreate_createPVStructure st = PVStructure st"

definition createPVStructure ::
  "StandardField \<Rightarrow> NTScalarMultiChannelBuilder \<Rightarrow> (error + PVStructure) \<times> NTScalarMultiChannelBuilder" where
  "createPVStructure standardField b =
     (case createStructure standardField b of
        (Inl e, b') \<Rightarrow> (Inl e, b')
      | (Inr st, b') \<Rightarrow> (Inr (pvDataCreate_createPVStructure st), b'))"

section \<open>NTScalarMultiChannel: the wrapper\<close>

record NTScalarMultiChannel =
  pvNTScalarMultiChannel :: "PVStructure option"
  pvTimeStamp :: "PVField option"
  pvAlarm :: "PVField option"
  pvValue :: "PVField option"
  pvChannelName :: "PVField option"
  pvIsConnected :: "PVField option"
  pvSeverity :: "PVField option"
  pvStatus :: "PVField option"
  pvMessage :: "PVField option"
  pvSecondsPastEpoch :: "PVField option"
  pvNanoseconds :: "PVField option"
  pvUserTag :: "PVField option"
  pvDescriptor :: "PVField option"

text \<open>The constructor looks the sub-fields up through the handle it is given.\<close>

definition new_NTScalarMultiChannel :: "PVStructure option \<Rightarrow> error + NTScalarMultiChannel" where
  "new_NTScalarMultiChannel pvStructure =
     (case pvStructure of
        None \<Rightarrow> Inl NullDereference
      | Some pv \<Rightarrow> Inr
          \<lparr>pvNTScalarMultiChannel = pvStructure,
           pvTimeStamp = getSubField_as PVStructure_t pv ''timeStamp'',
           pvAlarm = getSubField_as PVStructure_t pv ''alarm'',
           pvValue = getSubField_as PVScalarArray_t pv ''value'',
           pvChannelName = getSubField_as PVStringArray pv ''channelName'',
           pvIsConnected = getSubField_as PVBooleanArray pv ''isConnected'',
           pvSeverity = getSubField_as PVIntArray pv ''severity'',
           pvStatus = getSubField_as PVIntArray pv ''status'',
           pvMessage = getSubField_as PVStringArray pv ''message'',
           pvSecondsPastEpoch = getSubField_as PVLongArray pv ''secondsPastEpoch'',
           pvNanoseconds = getSubField_as PVIntArray pv ''nanoseconds'',
           pvUserTag = getSubField_as PVIntArray pv ''userTag'',
           pvDescriptor = getSubField_as PVString pv ''descriptor''\<rparr>)"

definition wrapUnsafe :: "PVStructure option \<Rightarrow> error + NTScalarMultiChannel option" where
  "wrapUnsafe structure =
     (case new_NTScalarMultiChannel structure of Inl e \<Rightarrow> Inl e | Inr w \<Rightarrow> Inr (Some w))"

definition wrap :: "NTField \<Rightarrow> PVStructure option \<Rightarrow> error + NTScalarMultiChannel option" where
  "wrap ntField structure =
     (if \<not> isCompatible_pv ntField structure then Inr None else wrapUnsafe structure)"

text \<open>\<open>NTScalarMultiChannelBuilder::create\<close>.\<close>

definition create ::
  "StandardField \<Rightarrow> NTScalarMultiChannelBuilder \<Rightarrow>
     (error + NTScalarMultiChannel option) \<times> NTScalarMultiChannelBuilder" where
  "create standardField b =
     (case createPVStructure standardField b of
        (Inl e, b') \<Rightarrow> (Inl e, b')
      | (Inr pv, b') \<Rightarrow> (wrapUnsafe (Some pv), b'))"

section \<open>NTNDArrayBuilder\<close>

text \<open>
  Modelled from the spec: the framework's field builder collects an identifier and an ordered
  list of named fields; making a structure or a union from it empties it again. A structure
  made without an identifier carries the default one.
\<close>

record FieldBuilder =
  fb_id :: string
  fb_fieldNames :: "string list"
  fb_fields :: "Field list"

definition createFieldBuilder :: FieldBuilder where
  "createFieldBuilder = \<lparr>fb_id = [], fb_fieldNames = [], fb_fields = []\<rparr>"

definition setId :: "string \<Rightarrow> FieldBuilder \<Rightarrow> FieldBuilder" where
  "setId ident fb = fb\<lparr>fb_id := ident\<rparr>"

definition fb_add :: "string \<Rightarrow> Field \<Rightarrow> FieldBuilder \<Rightarrow> FieldBuilder" where
  "fb_add name field fb =
     fb\<lparr>fb_fieldNames := fb_fieldNames fb @ [name], fb_fields := fb_fields fb @ [field]\<rparr>"

definition fb_add_scalar :: "string \<Rightarrow> ScalarType \<Rightarrow> FieldBuilder \<Rightarrow> FieldBuilder" where
  "fb_add_scalar name t fb = fb_add name (Scalar t) fb"

definition fb_addArray_scalar :: "string \<Rightarrow> ScalarType \<Rightarrow> FieldBuilder \<Rightarrow> FieldBuilder" where
  "fb_addArray_scalar name t fb = fb_add name (ScalarArray t) fb"

definition fb_addArray :: "string \<Rightarrow> Structure \<Rightarrow> FieldBuilder \<Rightarrow> FieldBuilder" where
  "fb_addArray name element fb = fb_add name (StructureArray element) fb"

definition fb_createStructure :: "FieldBuilder \<Rightarrow> Structure \<times> FieldBuilder" where
  "fb_createStructure fb =
     (Structure (if fb_id fb = [] then ''structure'' else fb_id fb)
        (zip (fb_fieldNames fb) (fb_fields fb)),
      createFieldBuilder)"

definition fb_createUnion :: "FieldBuilder \<Rightarrow> Union \<times> FieldBuilder" where
  "fb_createUnion fb =
     (Union (if fb_id fb = [] then ''union'' else fb_id fb)
        (zip (fb_fieldNames fb) (fb_fields fb)),
      createFieldBuilder)"

definition createVariantUnion :: Field where
  "createVariantUnion = UnionField (Union ''any'' [])"

text \<open>
  The scalar type tags as the numbers of the framework's enumeration, and their names as
  the framework's \<open>ScalarTypeFunc::name\<close> gives them.
\<close>

definition ScalarTypes :: "ScalarType list" where
  "ScalarTypes =
     [pvBoolean, pvByte, pvShort, pvInt, pvLong, pvUByte, pvUShort, pvUInt, pvULong,
      pvFloat, pvDouble, pvString]"

fun ScalarType_int :: "ScalarType \<Rightarrow> nat" where
  "ScalarType_int pvBoolean = 0"
| "ScalarType_int pvByte = 1"
| "ScalarType_int pvShort = 2"
| "ScalarType_int pvInt = 3"
| "ScalarType_int pvLong = 4"
| "ScalarType_int pvUByte = 5"
| "ScalarType_int pvUShort = 6"
| "ScalarType_int pvUInt = 7"
| "ScalarType_int pvULong = 8"
| "ScalarType_int pvFloat = 9"
| "ScalarType_int pvDouble = 10"
| "ScalarType_int pvString = 11"

fun ScalarTypeFunc_name :: "ScalarType \<Rightarrow> string" where
  "ScalarTypeFunc_name pvBoolean = ''boolean''"
| "ScalarTypeFunc_name pvByte = ''byte''"
| "ScalarTypeFunc_name pvShort = ''short''"
| "ScalarTypeFunc_name pvInt = ''int''"
| "ScalarTypeFunc_name pvLong = ''long''"
| "ScalarTypeFunc_name pvUByte = ''ubyte''"
| "ScalarTypeFunc_name pvUShort = ''ushort''"
| "ScalarTypeFunc_name pvUInt = ''uint''"
| "ScalarTypeFunc_name pvULong = ''ulong''"
| "ScalarTypeFunc_name pvFloat = ''float''"
| "ScalarTypeFunc_name pvDouble = ''double''"
| "ScalarTypeFunc_name pvString = ''string''"

record NTNDArrayBuilder =
  descriptor_nd :: bool
  timeStamp_nd :: bool
  alarm_nd :: bool
  display_nd :: bool
  extraFieldNames_nd :: "string list"
  extraFields_nd :: "Field list"

definition ntAttrStr :: string where
  "ntAttrStr = ''uri:ev4:nt/2014/pwd:NTAttribute''"

definition NTNDArray_URI :: string where
  "NTNDArray_URI = ''uri:ev4:nt/2014/pwd:NTNDArray''"

text \<open>
  The loop \<open>for (int i = pvBoolean; i < pvString; ++i)\<close> adds one array per scalar type
  below \<open>pvString\<close>, named after the type.
\<close>

definition value_loop :: "FieldBuilder \<Rightarrow> FieldBuilder" where
  "value_loop fb =
     foldl (\<lambda>fb st. fb_addArray_scalar (ScalarTypeFunc_name st @ ''Value'') st fb) fb
       (filter (\<lambda>st. ScalarType_int pvBoolean \<le> ScalarType_int st \<and>
                      ScalarType_int st < ScalarType_int pvString) ScalarTypes)"

function extras_loop_nd ::
  "nat \<Rightarrow> nat \<Rightarrow> string list \<Rightarrow> Field list \<Rightarrow> FieldBuilder \<Rightarrow> error + FieldBuilder" where
  "extras_loop_nd i extraCount efn ef fb =
     (if i < extraCount then
        (if i < length efn \<and> i < length ef
         then extras_loop_nd (Suc i) extraCount efn ef (fb_add (efn ! i) (ef ! i) fb)
         else Inl OutOfRange)
      else Inr fb)"
  by pat_completeness auto
termination
  by (relation "measure (\<lambda>(i, extraCount, efn, ef, fb). extraCount - i)") auto

text \<open>
  \<open>NTNDArrayBuilder::createStructure\<close>: the schema, or the error, and the builder afterwards.
  The function returns what the field builder makes and assigns to no member of the builder.
\<close>

definition createStructure_nd ::
  "StandardField \<Rightarrow> NTNDArrayBuilder \<Rightarrow> (error + Structure) \<times> NTNDArrayBuilder" where
  "createStructure_nd standardField b =
    (let fb = createFieldBuilder;
         fb = value_loop fb;
         (valueType, fb) = fb_createUnion fb;
         (codecStruc, fb) = fb_createStructure
            (fb_add ''parameters'' createVariantUnion
            (fb_add_scalar ''name'' pvString
            (setId ''codec_t'' fb)));
         (dimensionStruc, fb) = fb_createStructure
            (fb_add_scalar ''reverse'' pvBoolean
            (fb_add_scalar ''binning'' pvInt
            (fb_add_scalar ''fullSize'' pvInt
            (fb_add_scalar ''offset'' pvInt
            (fb_add_scalar ''size'' pvInt
            (setId ''dimension_t'' fb))))));
         (attributeStruc, fb) = fb_createStructure
            (fb_add_scalar ''source'' pvString
            (fb_add_scalar ''sourceType'' pvInt
            (fb_add_scalar ''descriptor'' pvString
            (fb_add ''value'' createVariantUnion
            (fb_add_scalar ''name'' pvString
            (setId ntAttrStr fb))))));
         fb = fb_addArray ''attribute'' attributeStruc
            (fb_add ''dataTimeStamp'' (StructureField (std_timeStamp standardField))
            (fb_add_scalar ''uniqueId'' pvInt
            (fb_addArray ''dimension'' dimensionStruc
            (fb_add_scalar ''uncompressedSize'' pvLong
            (fb_add_scalar ''compressedSize'' pvLong
            (fb_add ''codec'' (StructureField codecStruc)
            (fb_add ''value'' (UnionField valueType)
            (setId NTNDArray_URI fb))))))));
         fb = (if descriptor_nd b then fb_add_scalar ''descriptor'' pvString fb else fb);
         fb = (if timeStamp_nd b
               then fb_add ''timeStamp'' (StructureField (std_timeStamp standardField)) fb else fb);
         fb = (if alarm_nd b
               then fb_add ''alarm'' (StructureField (std_alarm standardField)) fb else fb);
         fb = (if display_nd b
               then fb_add ''display'' (StructureField (std_display standardField)) fb else fb);
         extraCount = length (extraFieldNames_nd b)
     in (case extras_loop_nd 0 extraCount (extraFieldNames_nd b) (extraFields_nd b) fb of
           Inl e \<Rightarrow> Inl e
         | Inr fb \<Rightarrow> Inr (fst (fb_createStructure fb)),
         b))"

definition addDescriptor_nd :: "NTNDArrayBuilder \<Rightarrow> NTNDArrayBuilder" where
  "addDescriptor_nd b = b\<lparr>descriptor_nd := True\<rparr>"

definition addAlarm_nd :: "NTNDArrayBuilder \<Rightarrow> NTNDArrayBuilder" where
  "addAlarm_nd b = b\<lparr>alarm_nd := True\<rparr>"

definition addTimeStamp_nd :: "NTNDArrayBuilder \<Rightarrow> NTNDArrayBuilder" where
  "addTimeStamp_nd b = b\<lparr>timeStamp_nd := True\<rparr>"

definition addDisplay_nd :: "NTNDArrayBuilder \<Rightarrow> NTNDArrayBuilder" where
  "addDisplay_nd b = b\<lparr>display_nd := True\<rparr>"

definition reset_nd :: "NTNDArrayBuilder \<Rightarrow> NTNDArrayBuilder" where
  "reset_nd b =
     b\<lparr>descriptor_nd := False, timeStamp_nd := False, alarm_nd := False, display_nd := False,
       extraFieldNames_nd := [], extraFields_nd := []\<rparr>"

definition new_NTNDArrayBuilder :: "NTNDArrayBuilder \<Rightarrow> NTNDArrayBuilder" where
  "new_NTNDArrayBuilder uninit = reset_nd uninit"

definition add_nd :: "string \<Rightarrow> Field \<Rightarrow> NTNDArrayBuilder \<Rightarrow> NTNDArrayBuilder" where
  "add_nd name field b =
     b\<lparr>extraFields_nd := extraFields_nd b @ [field],
       extraFieldNames_nd := extraFieldNames_nd b @ [name]\<rparr>"

definition createPVStructure_nd ::
  "StandardField \<Rightarrow> NTNDArrayBuilder \<Rightarrow> (error + PVStructure) \<times> NTNDArrayBuilder" where
  "createPVStructure_nd standardField b =
     (case createStructure_nd standardField b of
        (Inl e, b') \<Rightarrow> (Inl e, b')
      | (Inr st, b') \<Rightarrow> (Inr (pvDataCreate_createPVStructure st), b'))"

section \<open>NTNDArray\<close>

record NTNDArray =
  pvNTNDArray :: "PVStructure option"

definition new_NTNDArray :: "PVStructure option \<Rightarrow> NTNDArray" where
  "new_NTNDArray pvStructure = \<lparr>pvNTNDArray = pvStructure\<rparr>"

definition create_nd ::
  "StandardField \<Rightarrow> NTNDArrayBuilder \<Rightarrow> (error + NTNDArray) \<times> NTNDArrayBuilder" where
  "create_nd standardField b =
     (case createPVStructure_nd standardField b of
        (Inl e, b') \<Rightarrow> (Inl e, b')
      | (Inr pv, b') \<Rightarrow> (Inr (new_NTNDArray (Some pv)), b'))"

definition narrow_unsafe :: "PVStructure option \<Rightarrow> NTNDArray option" where
  "narrow_unsafe structure = Some (new_NTNDArray structure)"

definition is_a :: "Structure option \<Rightarrow> error + bool" where
  "is_a structure =
     (case structure of
        None \<Rightarrow> Inl NullDereference
      | Some st \<Rightarrow> Inr (getID st = NTNDArray_URI))"

text \<open>
  \<open>NTNDArray::narrow\<close>: the test is \<open>!structure || !is_a(structure->getStructure())\<close>, and the
  right operand is evaluated only for a non-null handle.
\<close>

definition narrow :: "PVStructure option \<Rightarrow> error + NTNDArray option" where
  "narrow structure =
     (case structure of
        None \<Rightarrow> Inr None
      | Some pv \<Rightarrow>
          (case is_a (Some (getStructure pv)) of
             Inl e \<Rightarrow> Inl e
           | Inr r \<Rightarrow> if \<not> r then Inr None else Inr (narrow_unsafe structure)))"

text \<open>
  The standard library's \<open>std::string::compare\<close>: zero exactly for equal strings, negative
  or positive as the first string is before or after the second.
\<close>

fun compare :: "string \<Rightarrow> string \<Rightarrow> int" where
  "compare [] [] = 0"
| "compare [] (y # ys) = - 1"
| "compare (x # xs) [] = 1"
| "compare (x # xs) (y # ys) =
     (if (of_char x :: nat) < of_char y then - 1
      else if (of_char y :: nat) < of_char x then 1
      else compare xs ys)"

text \<open>The operator \<open>!\<close> on an integer, its result read as an integer again.\<close>

definition logical_not :: "int \<Rightarrow> int" where
  "logical_not x = (if x = 0 then 1 else 0)"

text \<open>
  Typed sub-field lookups whose result is used further: the nested instance behind a
  \<open>PVStructure\<close> handle, and for a \<open>PVStructureArray\<close> handle the schema of its elements
  (\<open>getStructureArray()->getStructure()\<close>).
\<close>

definition getSubField_PVStructure :: "PVStructure \<Rightarrow> string \<Rightarrow> PVStructure option" where
  "getSubField_PVStructure pv name =
     (case getSubField_as PVStructure_t pv name of
        Some (PVField (StructureField s)) \<Rightarrow> Some (PVStructure s)
      | _ \<Rightarrow> None)"

definition getSubField_PVStructureArray :: "PVStructure \<Rightarrow> string \<Rightarrow> Structure option" where
  "getSubField_PVStructureArray pv name =
     (case getSubField_as PVStructureArray_t pv name of
        Some (PVField (StructureArray s)) \<Rightarrow> Some s
      | _ \<Rightarrow> None)"

text \<open>
  \<open>NTNDArray::is_compatible\<close>. The handle is used without a test, and so are the handles
  \<open>pvDimension\<close> and \<open>pvAttribute\<close>; using a null handle is the error \<open>NullDereference\<close>.
\<close>

definition is_compatible :: "NTField \<Rightarrow> PVStructure option \<Rightarrow> error + bool" where
  "is_compatible ntField pvStructure =
    (case pvStructure of
       None \<Rightarrow> Inl NullDereference
     | Some pv \<Rightarrow>
        if getSubField_as PVUnion_t pv ''value'' = None then Inr False
        else if getSubField pv ''descriptor'' \<noteq> None \<and>
                getSubField_as PVString pv ''descriptor'' = None then Inr False
        else if (case getSubField pv ''alarm'' of
                   Some pvField \<Rightarrow> \<not> isAlarm ntField (getFieldOf pvField)
                 | None \<Rightarrow> False) then Inr False
        else if (case getSubField pv ''timeStamp'' of
                   Some pvField \<Rightarrow> \<not> isTimeStamp ntField (getFieldOf pvField)
                 | None \<Rightarrow> False) then Inr False
        else if (case getSubField pv ''display'' of
                   Some pvField \<Rightarrow> \<not> isDisplay ntField (getFieldOf pvField)
                 | None \<Rightarrow> False) then Inr False
        else if getSubField_as PVLong pv ''compressedSize'' = None then Inr False
        else if getSubField_as PVLong pv ''uncompressedSize'' = None then Inr False
        else
          (case getSubField_PVStructure pv ''codec'' of
             None \<Rightarrow> Inr False
           | Some pvCodec \<Rightarrow>
              if getSubField_as PVString pvCodec ''name'' = None then Inr False
              else if getSubField_as PVUnion_t pvCodec ''parameters'' = None then Inr False
              else
                (case getSubField_PVStructureArray pv ''dimension'' of
                   None \<Rightarrow> Inl NullDereference
                 | Some dimensionStruc \<Rightarrow>
                    if compare (getID dimensionStruc) ''dimension_t'' \<noteq> 0 then Inr False
                    else if getSubField_as PVInt pv ''uniqueId'' = None then Inr False
                    else if (case getSubField pv ''dataTimeStamp'' of
                               Some pvField \<Rightarrow> \<not> isTimeStamp ntField (getFieldOf pvField)
                             | None \<Rightarrow> False) then Inr False
                    else
                      (case getSubField_PVStructureArray pv ''attribute'' of
                         None \<Rightarrow> Inl NullDereference
                       | Some attributeStruc \<Rightarrow>
                          if logical_not (compare (getID attributeStruc) ''ntAttrStr'') \<noteq> 0
                          then Inr False
                          else Inr True))))"

section \<open>NTTable: the typed column accessor\<close>

text \<open>
  \<open>NTTable::getColumn<PVT>\<close>. The untyped \<open>getColumn\<close> it calls is declared but not defined
  in the header, so it is a parameter here.
\<close>

definition getColumn_as ::
  "(string \<Rightarrow> PVField option) \<Rightarrow> PVT \<Rightarrow> string \<Rightarrow> PVField option" where
  "getColumn_as getColumn c columnName =
     (case getColumn columnName of
        Some pvField \<Rightarrow> dynamic_pointer_cast c pvField
      | None \<Rightarrow> None)"

section \<open>What the specification says, as definitions\<close>

subsection \<open>Compatibility with NTScalarMultiChannel\<close>

text \<open>
  The mandatory fields match: \<open>value\<close> is a scalar array and \<open>channelName\<close> is a scalar
  array of strings.
\<close>

definition mandatory_match :: "Structure \<Rightarrow> bool" where
  "mandatory_match st =
     ((case getField st ''value'' of Some (ScalarArray t) \<Rightarrow> True | _ \<Rightarrow> False) \<and>
      getField st ''channelName'' = Some (ScalarArray pvString))"

text \<open>The optional fields with a fixed type, and that type.\<close>

definition optional_types :: "(string \<times> Field) list" where
  "optional_types =
     [(''severity'', ScalarArray pvInt), (''status'', ScalarArray pvInt),
      (''message'', ScalarArray pvString), (''secondsPastEpoch'', ScalarArray pvLong),
      (''nanoseconds'', ScalarArray pvInt), (''userTag'', ScalarArray pvInt),
      (''descriptor'', Scalar pvString)]"

text \<open>
  Every optional field that is present matches its type: the fixed type of the list above,
  and for \<open>alarm\<close> and \<open>timeStamp\<close> the standard shape as \<open>NTField\<close> recognises it.
\<close>

definition optional_match :: "NTField \<Rightarrow> Structure \<Rightarrow> bool" where
  "optional_match ntField st =
     (list_all (\<lambda>(name, t). getField st name = None \<or> getField st name = Some t)
        optional_types \<and>
      (case getField st ''alarm'' of None \<Rightarrow> True | Some f \<Rightarrow> isAlarm ntField f) \<and>
      (case getField st ''timeStamp'' of None \<Rightarrow> True | Some f \<Rightarrow> isTimeStamp ntField f))"

text \<open>The names \<open>isCompatible\<close> looks up.\<close>

definition checked_names :: "string list" where
  "checked_names =
     [''value'', ''channelName'', ''severity'', ''status'', ''message'', ''secondsPastEpoch'',
      ''nanoseconds'', ''userTag'', ''descriptor'', ''alarm'', ''timeStamp'']"

subsection \<open>The schema of NTScalarMultiChannelBuilder\<close>

text \<open>The optional fields in their declared order: the toggle, the name and the type.\<close>

definition optional_fields ::
  "StandardField \<Rightarrow> ((NTScalarMultiChannelBuilder \<Rightarrow> bool) \<times> string \<times> Field) list" where
  "optional_fields standardField =
     [(descriptor, ''descriptor'', Scalar pvString),
      (alarm, ''alarm'', StructureField (std_alarm standardField)),
      (timeStamp, ''timeStamp'', StructureField (std_timeStamp standardField)),
      (severity, ''severity'', ScalarArray pvInt),
      (status, ''status'', ScalarArray pvInt),
      (message, ''message'', ScalarArray pvString),
      (secondsPastEpoch, ''secondsPastEpoch'', ScalarArray pvLong),
      (nanoseconds, ''nanoseconds'', ScalarArray pvInt),
      (userTag, ''userTag'', ScalarArray pvInt),
      (isConnected, ''isConnected'', ScalarArray pvBoolean)]"

text \<open>
  The field list of the specification: the value array, the name array, each toggled
  optional field in the declared order, the extra fields in insertion order.
\<close>

definition schema_fields ::
  "StandardField \<Rightarrow> NTScalarMultiChannelBuilder \<Rightarrow> (string \<times> Field) list" where
  "schema_fields standardField b =
     [(''value'', ScalarArray (valueType b)), (''channelName'', ScalarArray pvString)]
     @ map snd (filter (\<lambda>(toggle, entry). toggle b) (optional_fields standardField))
     @ zip (extraFieldNames b) (extraFields b)"

text \<open>The builder as \<open>reset\<close> leaves it.\<close>

definition default_builder :: NTScalarMultiChannelBuilder where
  "default_builder =
     \<lparr>valueType = pvDouble, descriptor = False, alarm = False, timeStamp = False,
      severity = False, status = False, message = False, secondsPastEpoch = False,
      nanoseconds = False, userTag = False, isConnected = True,
      extraFieldNames = [], extraFields = []\<rparr>"

text \<open>
  The arrays of \<open>createStructure\<close> when the entries \<open>acc\<close> have been written and \<open>k\<close> places
  are left, and a statement that writes the entries \<open>xs\<close> whenever there is room for them.
\<close>

definition filled :: "(string \<times> Field) list \<Rightarrow> nat \<Rightarrow> arrays" where
  "filled acc k =
     (map fst acc @ replicate k [], map (Some \<circ> snd) acc @ replicate k None, length acc)"

definition emits :: "(arrays \<Rightarrow> error + arrays) \<Rightarrow> (string \<times> Field) list \<Rightarrow> bool" where
  "emits f xs = (\<forall>acc k. f (filled acc (length xs + k)) = Inr (filled (acc @ xs) k))"

subsection \<open>The checks of the NTNDArray predicate before its two array lookups\<close>

text \<open>The mandatory fields looked up before \<open>dimension\<close> are there, with their types.\<close>

definition mandatory_before_dimension :: "PVStructure \<Rightarrow> bool" where
  "mandatory_before_dimension pv =
     (getSubField_as PVUnion_t pv ''value'' \<noteq> None \<and>
      getSubField_as PVLong pv ''compressedSize'' \<noteq> None \<and>
      getSubField_as PVLong pv ''uncompressedSize'' \<noteq> None \<and>
      (case getSubField_PVStructure pv ''codec'' of
         None \<Rightarrow> False
       | Some pvCodec \<Rightarrow>
           getSubField_as PVString pvCodec ''name'' \<noteq> None \<and>
           getSubField_as PVUnion_t pvCodec ''parameters'' \<noteq> None))"

text \<open>The optional fields tested before \<open>dimension\<close> have their types when they are there.\<close>

definition optional_before_dimension :: "NTField \<Rightarrow> PVStructure \<Rightarrow> bool" where
  "optional_before_dimension ntField pv =
     ((case getSubField pv ''descriptor'' of
         None \<Rightarrow> True
       | Some pvField \<Rightarrow> instance_of (getFieldOf pvField) PVString) \<and>
      (case getSubField pv ''alarm'' of
         None \<Rightarrow> True
       | Some pvField \<Rightarrow> isAlarm ntField (getFieldOf pvField)) \<and>
      (case getSubField pv ''timeStamp'' of
         None \<Rightarrow> True
       | Some pvField \<Rightarrow> isTimeStamp ntField (getFieldOf pvField)) \<and>
      (case getSubField pv ''display'' of
         None \<Rightarrow> True
       | Some pvField \<Rightarrow> isDisplay ntField (getFieldOf pvField)))"

text \<open>Every check before the lookup of \<open>dimension\<close> passes.\<close>

definition reaches_dimension :: "NTField \<Rightarrow> PVStructure \<Rightarrow> bool" where
  "reaches_dimension ntField pv =
     (mandatory_before_dimension pv \<and> optional_before_dimension ntField pv)"

text \<open>Every check before the lookup of \<open>attribute\<close> passes.\<close>

definition reaches_attribute :: "NTField \<Rightarrow> PVStructure \<Rightarrow> bool" where
  "reaches_attribute ntField pv =
     (reaches_dimension ntField pv \<and>
      (case getSubField_PVStructureArray pv ''dimension'' of
         None \<Rightarrow> False
       | Some dimensionStruc \<Rightarrow> getID dimensionStruc = ''dimension_t'') \<and>
      getSubField_as PVInt pv ''uniqueId'' \<noteq> None \<and>
      (case getSubField pv ''dataTimeStamp'' of
         None \<Rightarrow> True
       | Some pvField \<Rightarrow> isTimeStamp ntField (getFieldOf pvField)))"

subsection \<open>Concrete parameters and inputs\<close>

text \<open>
  One choice of the parameters: standard sub-schemas, and predicates that recognise exactly
  them.
\<close>

definition example_StandardField :: StandardField where
  "example_StandardField =
     \<lparr>std_alarm = Structure ''alarm_t''
        [(''severity'', Scalar pvInt), (''status'', Scalar pvInt), (''message'', Scalar pvString)],
      std_timeStamp = Structure ''time_t''
        [(''secondsPastEpoch'', Scalar pvLong), (''nanoseconds'', Scalar pvInt),
         (''userTag'', Scalar pvInt)],
      std_display = Structure ''display_t''
        [(''limitLow'', Scalar pvDouble), (''limitHigh'', Scalar pvDouble),
         (''description'', Scalar pvString), (''format'', Scalar pvString),
         (''units'', Scalar pvString)]\<rparr>"

definition example_NTField :: NTField where
  "example_NTField =
     \<lparr>isAlarm = (\<lambda>f. f = StructureField (std_alarm example_StandardField)),
      isTimeStamp = (\<lambda>f. f = StructureField (std_timeStamp example_StandardField)),
      isDisplay = (\<lambda>f. f = StructureField (std_display example_StandardField))\<rparr>"

text \<open>
  An n-dimensional array instance with the mandatory fields only, whose \<open>dimension\<close> and
  \<open>attribute\<close> arrays have elements with the given identifiers.
\<close>

definition example_ndarray :: "string \<Rightarrow> string \<Rightarrow> (string \<times> Field) list" where
  "example_ndarray dimensionId attributeId =
     [(''value'', createVariantUnion),
      (''codec'', StructureField (Structure ''codec_t''
         [(''name'', Scalar pvString), (''parameters'', createVariantUnion)])),
      (''compressedSize'', Scalar pvLong),
      (''uncompressedSize'', Scalar pvLong),
      (''dimension'', StructureArray (Structure dimensionId [])),
      (''uniqueId'', Scalar pvInt),
      (''attribute'', StructureArray (Structure attributeId []))]"

declare extras_loop.simps [simp del]
declare extras_loop_nd.simps [simp del]

section \<open>The compatibility predicate of NTScalarMultiChannel\<close>

lemma check_ScalarArray:
  "(getField st n \<noteq> None \<and>
      (getField_ScalarArray st n = None \<or> getField_ScalarArray st n \<noteq> Some t))
   = (\<not> (getField st n = None \<or> getField st n = Some (ScalarArray t)))"
  by (auto simp: getField_ScalarArray_def split: option.splits Field.splits)

lemma check_Scalar:
  "(getField st n \<noteq> None \<and>
      (getField_Scalar st n = None \<or> getField_Scalar st n \<noteq> Some t))
   = (\<not> (getField st n = None \<or> getField st n = Some (Scalar t)))"
  by (auto simp: getField_Scalar_def split: option.splits Field.splits)

lemma check_value:
  "(getField_ScalarArray st n = None) =
   (\<not> (case getField st n of Some (ScalarArray t) \<Rightarrow> True | _ \<Rightarrow> False))"
  by (auto simp: getField_ScalarArray_def split: option.splits Field.splits)

lemma check_channelName:
  "(getField_ScalarArray st n = Some t) = (getField st n = Some (ScalarArray t))"
  by (auto simp: getField_ScalarArray_def split: option.splits Field.splits)

lemma check_standard:
  "(case x of Some field \<Rightarrow> \<not> P field | None \<Rightarrow> False) =
   (\<not> (case x of None \<Rightarrow> True | Some f \<Rightarrow> P f))"
  by (cases x) auto

lemma isCompatible_iff:
  "isCompatible ntField (Some st) = (mandatory_match st \<and> optional_match ntField st)"
  unfolding isCompatible_def mandatory_match_def optional_match_def optional_types_def
  unfolding check_ScalarArray check_Scalar check_standard
  unfolding check_value check_channelName
  by simp

lemma isCompatible_null: "isCompatible ntField None = False"
  by (simp add: isCompatible_def)

lemma isCompatible_pv_null: "isCompatible_pv ntField None = False"
  by (simp add: isCompatible_pv_def)

text \<open>
  C1. For every structure, \<open>isCompatible\<close> is false whenever a mandatory field (\<open>value\<close> as a
  scalar array, \<open>channelName\<close> as a scalar array of strings) is missing or of another type,
  and true whenever the mandatory fields match and every optional field that is present
  (severity, status, message, secondsPastEpoch, nanoseconds, userTag, descriptor, alarm,
  timeStamp) has its required type, whichever optional fields are present.
\<close>

theorem isCompatible_mandatory_optional:
  "(\<not> mandatory_match st \<longrightarrow> isCompatible ntField (Some st) = False) \<and>
   (mandatory_match st \<and> optional_match ntField st \<longrightarrow> isCompatible ntField (Some st) = True)"
  by (simp add: isCompatible_iff)

theorem isCompatible_mandatory_optional_witness:
  "\<not> mandatory_match (Structure URI [(''value'', ScalarArray pvInt)]) \<and>
   isCompatible example_NTField (Some (Structure URI [(''value'', ScalarArray pvInt)])) = False \<and>
   mandatory_match (Structure URI
     [(''value'', ScalarArray pvInt), (''channelName'', ScalarArray pvString),
      (''severity'', ScalarArray pvInt),
      (''timeStamp'', StructureField (std_timeStamp example_StandardField))]) \<and>
   optional_match example_NTField (Structure URI
     [(''value'', ScalarArray pvInt), (''channelName'', ScalarArray pvString),
      (''severity'', ScalarArray pvInt),
      (''timeStamp'', StructureField (std_timeStamp example_StandardField))]) \<and>
   isCompatible example_NTField (Some (Structure URI
     [(''value'', ScalarArray pvInt), (''channelName'', ScalarArray pvString),
      (''severity'', ScalarArray pvInt),
      (''timeStamp'', StructureField (std_timeStamp example_StandardField))])) = True"
proof -
  let ?bad = "Structure URI [(''value'', ScalarArray pvInt)]"
  let ?good = "Structure URI
     [(''value'', ScalarArray pvInt), (''channelName'', ScalarArray pvString),
      (''severity'', ScalarArray pvInt),
      (''timeStamp'', StructureField (std_timeStamp example_StandardField))]"
  have b: "\<not> mandatory_match ?bad"
    by (simp add: mandatory_match_def getField_def)
  have m: "mandatory_match ?good"
    by (simp add: mandatory_match_def getField_def)
  have o: "optional_match example_NTField ?good"
    by (simp add: optional_match_def optional_types_def getField_def example_NTField_def)
  show ?thesis
    using b m o isCompatible_mandatory_optional [of ?bad example_NTField]
      isCompatible_mandatory_optional [of ?good example_NTField]
    by simp
qed


section \<open>The schema made by NTScalarMultiChannelBuilder\<close>

lemma emits_put: "emits (put name field) [(name, field)]"
  by (simp add: emits_def filled_def put_def list_update_append)

lemma emits_when_set:
  "emits (when_set c (put name field)) (if c then [(name, field)] else [])"
proof (cases c)
  case True
  then show ?thesis using emits_put [of name field] by (simp add: emits_def when_set_def)
next
  case False
  then show ?thesis by (simp add: emits_def when_set_def)
qed

lemma extras_loop_filled:
  assumes "length efn = length ef" "i \<le> length efn"
  shows "extras_loop i (length efn) efn ef (filled acc (length efn - i + k))
         = Inr (filled (acc @ drop i (zip efn ef)) k)"
  using assms
proof (induction "length efn - i" arbitrary: i acc)
  case 0
  then show ?case by (subst extras_loop.simps) simp
next
  case (Suc n)
  then have lt: "i < length efn" by arith
  have d: "drop i (zip efn ef) = (efn ! i, ef ! i) # drop (Suc i) (zip efn ef)"
    using lt Suc.prems(1) by (metis Cons_nth_drop_Suc length_zip min.idem nth_zip)
  have k: "length efn - i + k = length [(efn ! i, ef ! i)] + (length efn - Suc i + k)"
    using lt by simp
  have p: "put (efn ! i) (ef ! i) (filled acc (length efn - i + k))
           = Inr (filled (acc @ [(efn ! i, ef ! i)]) (length efn - Suc i + k))"
    unfolding k using emits_put [of "efn ! i" "ef ! i"] unfolding emits_def by blast
  have n: "n = length efn - Suc i" using Suc.hyps(2) by arith
  have r: "extras_loop (Suc i) (length efn) efn ef
             (filled (acc @ [(efn ! i, ef ! i)]) (length efn - Suc i + k))
           = Inr (filled ((acc @ [(efn ! i, ef ! i)]) @ drop (Suc i) (zip efn ef)) k)"
    using Suc.hyps(1) [OF n Suc.prems(1)] lt by simp
  show ?case
    using lt Suc.prems(1) p r d by (subst extras_loop.simps) simp
qed

lemma emits_extras_loop:
  assumes "length efn = length ef"
  shows "emits (extras_loop 0 (length efn) efn ef) (zip efn ef)"
  unfolding emits_def
proof (intro allI)
  fix acc k
  show "extras_loop 0 (length efn) efn ef (filled acc (length (zip efn ef) + k))
        = Inr (filled (acc @ zip efn ef) k)"
    using extras_loop_filled [OF assms, of 0 acc k] assms by simp
qed

lemma emits_run_Nil: "emits (run []) []"
  by (simp add: emits_def)

lemma emits_run_Cons:
  assumes "emits f xs" "emits (run fs) ys"
  shows "emits (run (f # fs)) (xs @ ys)"
  unfolding emits_def
proof (intro allI)
  fix acc k
  have "f (filled acc (length xs + (length ys + k))) = Inr (filled (acc @ xs) (length ys + k))"
    using assms(1) unfolding emits_def by blast
  moreover have "run fs (filled (acc @ xs) (length ys + k)) = Inr (filled ((acc @ xs) @ ys) k)"
    using assms(2) unfolding emits_def by blast
  ultimately show "run (f # fs) (filled acc (length (xs @ ys) + k))
                   = Inr (filled (acc @ xs @ ys) k)"
    by (simp add: add.assoc)
qed

lemma filter_Cons_append: "filter P (x # xs) = (if P x then [x] else []) @ filter P xs"
  by simp

lemma map_snd_if: "map snd (if c then [x] else []) = (if c then [snd x] else [])"
  by simp

lemma length_if_single: "length (if c then [x] else []) = (if c then 1 else 0)"
  by simp

lemma schema_fields_unfold:
  "schema_fields sf b =
     [(''value'', ScalarArray (valueType b))] @ [(''channelName'', ScalarArray pvString)]
     @ (if descriptor b then [(''descriptor'', Scalar pvString)] else [])
     @ (if alarm b then [(''alarm'', StructureField (std_alarm sf))] else [])
     @ (if timeStamp b then [(''timeStamp'', StructureField (std_timeStamp sf))] else [])
     @ (if severity b then [(''severity'', ScalarArray pvInt)] else [])
     @ (if status b then [(''status'', ScalarArray pvInt)] else [])
     @ (if message b then [(''message'', ScalarArray pvString)] else [])
     @ (if secondsPastEpoch b then [(''secondsPastEpoch'', ScalarArray pvLong)] else [])
     @ (if nanoseconds b then [(''nanoseconds'', ScalarArray pvInt)] else [])
     @ (if userTag b then [(''userTag'', ScalarArray pvInt)] else [])
     @ (if isConnected b then [(''isConnected'', ScalarArray pvBoolean)] else [])
     @ zip (extraFieldNames b) (extraFields b) @ []"
  unfolding schema_fields_def optional_fields_def
  by (simp only: filter_Cons_append filter.simps(1) map_append map_snd_if list.map
        append_Nil2 append_Cons append_Nil append_assoc prod.case snd_conv)

lemma length_schema_fields:
  "length (schema_fields sf b) =
     2 + length (extraFieldNames b)
       + (if descriptor b then 1 else 0)
       + (if alarm b then 1 else 0)
       + (if timeStamp b then 1 else 0)
       + (if severity b then 1 else 0)
       + (if status b then 1 else 0)
       + (if message b then 1 else 0)
       + (if secondsPastEpoch b then 1 else 0)
       + (if nanoseconds b then 1 else 0)
       + (if userTag b then 1 else 0)
       + (if isConnected b then 1 else 0)"
  if "length (extraFieldNames b) = length (extraFields b)"
  unfolding schema_fields_unfold length_append length_if_single using that
  by (simp only: length_zip min.idem list.size add.commute add.left_commute add.assoc
        One_nat_def add_0_right add_0 add_Suc add_Suc_right numeral_2_eq_2 Nat.add_0_right)

lemma run_steps_emits:
  assumes "length (extraFieldNames b) = length (extraFields b)"
  shows "emits (run
          [put ''value'' (ScalarArray (valueType b)),
           put ''channelName'' (ScalarArray pvString),
           when_set (descriptor b) (put ''descriptor'' (Scalar pvString)),
           when_set (alarm b) (put ''alarm'' (StructureField (std_alarm sf))),
           when_set (timeStamp b) (put ''timeStamp'' (StructureField (std_timeStamp sf))),
           when_set (severity b) (put ''severity'' (ScalarArray pvInt)),
           when_set (status b) (put ''status'' (ScalarArray pvInt)),
           when_set (message b) (put ''message'' (ScalarArray pvString)),
           when_set (secondsPastEpoch b) (put ''secondsPastEpoch'' (ScalarArray pvLong)),
           when_set (nanoseconds b) (put ''nanoseconds'' (ScalarArray pvInt)),
           when_set (userTag b) (put ''userTag'' (ScalarArray pvInt)),
           when_set (isConnected b) (put ''isConnected'' (ScalarArray pvBoolean)),
           extras_loop 0 (length (extraFieldNames b)) (extraFieldNames b) (extraFields b)])
         (schema_fields sf b)"
  unfolding schema_fields_unfold
  by (intro emits_run_Cons emits_put emits_when_set emits_extras_loop emits_run_Nil assms)

lemma fieldCreate_createStructure_filled:
  "fieldCreate_createStructure ident (map fst xs) (map (Some \<circ> snd) xs) = Inr (Structure ident xs)"
  by (auto simp: fieldCreate_createStructure_def zip_map_fst_snd comp_def)

lemma createStructure_result:
  assumes "length (extraFieldNames b) = length (extraFields b)"
  shows "createStructure sf b = (Inr (Structure URI (schema_fields sf b)), reset b)"
proof -
  have start: "(replicate n [], replicate n None, 0) = filled [] (n + 0)" for n
    by (simp add: filled_def)
  have stop: "filled xs 0 = (map fst xs, map (Some \<circ> snd) xs, length xs)" for xs
    by (simp add: filled_def)
  note e = run_steps_emits [OF assms, of sf, unfolded emits_def, rule_format, of "[]" 0]
  show ?thesis
    unfolding createStructure_def Let_def length_schema_fields [OF assms, of sf, symmetric]
    unfolding start
    by (simp only: e append_Nil stop sum.case prod.case fieldCreate_createStructure_filled)
qed

lemma reset_default: "reset b = default_builder"
  by (simp add: reset_def default_builder_def)

lemma schema_fields_default:
  "schema_fields sf default_builder =
     [(''value'', ScalarArray pvDouble), (''channelName'', ScalarArray pvString),
      (''isConnected'', ScalarArray pvBoolean)]"
  by (simp add: schema_fields_def optional_fields_def default_builder_def)

text \<open>
  C6. For every configuration of the builder, the schema of \<open>createStructure\<close> lists
  \<open>value\<close> (a scalar array of the configured element type), then \<open>channelName\<close> (a string
  array), then each toggled optional field in the declared order (descriptor, alarm,
  timeStamp, severity, status, message, secondsPastEpoch, nanoseconds, userTag,
  isConnected), then the extra fields in insertion order, and it carries the identifier of
  NTScalarMultiChannel. The two vectors of extra fields have one length, as \<open>add\<close> keeps them.
\<close>

theorem createStructure_field_order:
  assumes "length (extraFieldNames b) = length (extraFields b)"
  shows "fst (createStructure standardField b)
           = Inr (Structure ''epics:nt/NTScalarMultiChannel:1.0'' (schema_fields standardField b))"
  using createStructure_result [OF assms, of standardField] by (simp add: URI_def)

theorem createStructure_field_order_witness:
  "length (extraFieldNames (add ''extra'' (Scalar pvFloat)
       (addTimeStamp (addSeverity (value pvInt default_builder)))))
     = length (extraFields (add ''extra'' (Scalar pvFloat)
       (addTimeStamp (addSeverity (value pvInt default_builder))))) \<and>
   fst (createStructure example_StandardField
     (add ''extra'' (Scalar pvFloat) (addTimeStamp (addSeverity (value pvInt default_builder)))))
   = Inr (Structure ''epics:nt/NTScalarMultiChannel:1.0''
       [(''value'', ScalarArray pvInt), (''channelName'', ScalarArray pvString),
        (''timeStamp'', StructureField (std_timeStamp example_StandardField)),
        (''severity'', ScalarArray pvInt), (''isConnected'', ScalarArray pvBoolean),
        (''extra'', Scalar pvFloat)])"
proof -
  let ?b = "add ''extra'' (Scalar pvFloat)
              (addTimeStamp (addSeverity (value pvInt default_builder)))"
  have l: "length (extraFieldNames ?b) = length (extraFields ?b)"
    by (simp add: add_def addTimeStamp_def addSeverity_def value_def default_builder_def)
  have s: "schema_fields example_StandardField ?b =
       [(''value'', ScalarArray pvInt), (''channelName'', ScalarArray pvString),
        (''timeStamp'', StructureField (std_timeStamp example_StandardField)),
        (''severity'', ScalarArray pvInt), (''isConnected'', ScalarArray pvBoolean),
        (''extra'', Scalar pvFloat)]"
    by (simp add: schema_fields_def optional_fields_def add_def addTimeStamp_def
          addSeverity_def value_def default_builder_def)
  show ?thesis
    using l createStructure_field_order [OF l, of example_StandardField] s by simp
qed

text \<open>
  C9. \<open>reset\<close>, and so the constructor, sets the \<open>isConnected\<close> flag and clears every other
  optional flag, and makes the value element type \<open>pvDouble\<close>; \<open>createStructure\<close> on a new or
  just reset builder gives a schema with an \<open>isConnected\<close> array of booleans.
\<close>

theorem reset_includes_isConnected:
  "reset b =
     \<lparr>valueType = pvDouble, descriptor = False, alarm = False, timeStamp = False,
      severity = False, status = False, message = False, secondsPastEpoch = False,
      nanoseconds = False, userTag = False, isConnected = True,
      extraFieldNames = [], extraFields = []\<rparr> \<and>
   new_NTScalarMultiChannelBuilder uninit = reset b \<and>
   fst (createStructure standardField (reset b))
     = Inr (Structure URI
         [(''value'', ScalarArray pvDouble), (''channelName'', ScalarArray pvString),
          (''isConnected'', ScalarArray pvBoolean)]) \<and>
   getField (Structure URI (schema_fields standardField (reset b))) ''isConnected''
     = Some (ScalarArray pvBoolean)"
proof -
  have l: "length (extraFieldNames default_builder) = length (extraFields default_builder)"
    by (simp add: default_builder_def)
  have c: "fst (createStructure standardField default_builder)
           = Inr (Structure URI (schema_fields standardField default_builder))"
    using createStructure_result [OF l, of standardField] by simp
  have n: "new_NTScalarMultiChannelBuilder uninit = default_builder"
    by (simp add: new_NTScalarMultiChannelBuilder_def reset_default)
  have d: "default_builder =
     \<lparr>valueType = pvDouble, descriptor = False, alarm = False, timeStamp = False,
      severity = False, status = False, message = False, secondsPastEpoch = False,
      nanoseconds = False, userTag = False, isConnected = True,
      extraFieldNames = [], extraFields = []\<rparr>"
    by (simp add: default_builder_def)
  have g: "getField (Structure URI (schema_fields standardField default_builder)) ''isConnected''
           = Some (ScalarArray pvBoolean)"
    by (simp add: schema_fields_default getField_def)
  show ?thesis
    unfolding reset_default
    using c n d g by (simp add: schema_fields_default reset_default)
qed

theorem reset_includes_isConnected_witness:
  "isConnected (reset (addDescriptor (value pvInt default_builder))) = True \<and>
   descriptor (reset (addDescriptor (value pvInt default_builder))) = False \<and>
   valueType (reset (addDescriptor (value pvInt default_builder))) = pvDouble \<and>
   fst (createStructure example_StandardField (reset (addDescriptor (value pvInt default_builder))))
     = Inr (Structure URI
         [(''value'', ScalarArray pvDouble), (''channelName'', ScalarArray pvString),
          (''isConnected'', ScalarArray pvBoolean)])"
proof -
  note t = reset_includes_isConnected
    [of "addDescriptor (value pvInt default_builder)" default_builder example_StandardField]
  from t have f: "reset (addDescriptor (value pvInt default_builder)) =
     \<lparr>valueType = pvDouble, descriptor = False, alarm = False, timeStamp = False,
      severity = False, status = False, message = False, secondsPastEpoch = False,
      nanoseconds = False, userTag = False, isConnected = True,
      extraFieldNames = [], extraFields = []\<rparr>"
    by (rule conjunct1)
  from t have c: "fst (createStructure example_StandardField
        (reset (addDescriptor (value pvInt default_builder))))
     = Inr (Structure URI
         [(''value'', ScalarArray pvDouble), (''channelName'', ScalarArray pvString),
          (''isConnected'', ScalarArray pvBoolean)])"
    by blast
  show ?thesis
    using c by (simp add: f)
qed


lemma extra_vectors_reset: "length (extraFieldNames (reset b)) = length (extraFields (reset b))"
  by (simp add: reset_def)

lemma extra_vectors_add:
  "length (extraFieldNames b) = length (extraFields b) \<Longrightarrow>
   length (extraFieldNames (add name field b)) = length (extraFields (add name field b))"
  by (simp add: add_def)

lemma extra_vectors_toggle:
  "extraFieldNames (value t b) = extraFieldNames b \<and> extraFields (value t b) = extraFields b \<and>
   extraFieldNames (addDescriptor b) = extraFieldNames b \<and>
   extraFields (addDescriptor b) = extraFields b \<and>
   extraFieldNames (addAlarm b) = extraFieldNames b \<and>
   extraFields (addAlarm b) = extraFields b \<and>
   extraFieldNames (addTimeStamp b) = extraFieldNames b \<and>
   extraFields (addTimeStamp b) = extraFields b \<and>
   extraFieldNames (addSeverity b) = extraFieldNames b \<and>
   extraFields (addSeverity b) = extraFields b \<and>
   extraFieldNames (addStatus b) = extraFieldNames b \<and>
   extraFields (addStatus b) = extraFields b \<and>
   extraFieldNames (addMessage b) = extraFieldNames b \<and>
   extraFields (addMessage b) = extraFields b \<and>
   extraFieldNames (addSecondsPastEpoch b) = extraFieldNames b \<and>
   extraFields (addSecondsPastEpoch b) = extraFields b \<and>
   extraFieldNames (addNanoseconds b) = extraFieldNames b \<and>
   extraFields (addNanoseconds b) = extraFields b \<and>
   extraFieldNames (addUserTag b) = extraFieldNames b \<and>
   extraFields (addUserTag b) = extraFields b \<and>
   extraFieldNames (addIsConnected b) = extraFieldNames b \<and>
   extraFields (addIsConnected b) = extraFields b"
  by (simp add: value_def addDescriptor_def addAlarm_def addTimeStamp_def addSeverity_def
        addStatus_def addMessage_def addSecondsPastEpoch_def addNanoseconds_def addUserTag_def
        addIsConnected_def)

section \<open>Null handles\<close>

lemma is_compatible_null: "is_compatible ntField None = Inl NullDereference"
  by (simp add: is_compatible_def)

text \<open>
  C2. Every compatibility predicate answers false on a null schema or a null instance. Both
  overloads of \<open>NTScalarMultiChannel::isCompatible\<close> do; \<open>NTNDArray::is_compatible\<close> has no
  such test and uses the null handle in its first statement.
\<close>

theorem is_compatible_null_is_dereferenced:
  "isCompatible ntField None = False \<and>
   isCompatible_pv ntField None = False \<and>
   is_compatible ntField None = Inl NullDereference"
  by (simp add: isCompatible_def isCompatible_pv_def is_compatible_def)

section \<open>The typed column accessor of NTTable\<close>

text \<open>
  C10. For every column name the typed accessor gives a handle and no error: the empty
  handle when the untyped accessor finds no field, the empty handle when the field found is
  not of the class asked for, and the field itself otherwise.
\<close>

theorem getColumn_as_total:
  "(getColumn columnName = None \<longrightarrow> getColumn_as getColumn c columnName = None) \<and>
   (\<forall>pvField. getColumn columnName = Some pvField \<and> \<not> instance_of (getFieldOf pvField) c
       \<longrightarrow> getColumn_as getColumn c columnName = None) \<and>
   (\<forall>pvField. getColumn columnName = Some pvField \<and> instance_of (getFieldOf pvField) c
       \<longrightarrow> getColumn_as getColumn c columnName = Some pvField)"
  by (simp add: getColumn_as_def dynamic_pointer_cast_def)

theorem getColumn_as_total_witness:
  "(\<lambda>n. if n = ''x'' then Some (PVField (ScalarArray pvDouble)) else None) ''y'' = None \<and>
   getColumn_as (\<lambda>n. if n = ''x'' then Some (PVField (ScalarArray pvDouble)) else None)
     PVIntArray ''y'' = None \<and>
   (\<lambda>n. if n = ''x'' then Some (PVField (ScalarArray pvDouble)) else None) ''x''
     = Some (PVField (ScalarArray pvDouble)) \<and>
   \<not> instance_of (getFieldOf (PVField (ScalarArray pvDouble))) PVIntArray \<and>
   getColumn_as (\<lambda>n. if n = ''x'' then Some (PVField (ScalarArray pvDouble)) else None)
     PVIntArray ''x'' = None \<and>
   instance_of (getFieldOf (PVField (ScalarArray pvDouble))) PVScalarArray_t \<and>
   getColumn_as (\<lambda>n. if n = ''x'' then Some (PVField (ScalarArray pvDouble)) else None)
     PVScalarArray_t ''x'' = Some (PVField (ScalarArray pvDouble))"
proof -
  let ?g = "\<lambda>n. if n = ''x'' then Some (PVField (ScalarArray pvDouble)) else None"
  have a: "?g ''y'' = None" by simp
  have b: "?g ''x'' = Some (PVField (ScalarArray pvDouble))" by simp
  have i: "\<not> instance_of (getFieldOf (PVField (ScalarArray pvDouble))) PVIntArray" by simp
  have j: "instance_of (getFieldOf (PVField (ScalarArray pvDouble))) PVScalarArray_t" by simp
  from getColumn_as_total [of ?g "''y''" PVIntArray] a
  have 1: "getColumn_as ?g PVIntArray ''y'' = None" by blast
  from getColumn_as_total [of ?g "''x''" PVIntArray] b i
  have 2: "getColumn_as ?g PVIntArray ''x'' = None" by blast
  from getColumn_as_total [of ?g "''x''" PVScalarArray_t] b j
  have 3: "getColumn_as ?g PVScalarArray_t ''x'' = Some (PVField (ScalarArray pvDouble))"
    by blast
  show ?thesis using a b i j 1 2 3 by (intro conjI)
qed


section \<open>Wrapping what the builder makes\<close>

lemma map_of_append_case:
  "map_of (xs @ ys) n = (case map_of xs n of Some v \<Rightarrow> Some v | None \<Rightarrow> map_of ys n)"
  by (simp add: map_add_def split: option.splits)

lemma map_of_if_single:
  "map_of (if c then [(k, v)] else []) n = (if c \<and> n = k then Some v else None)"
  by simp

lemma map_of_extras:
  assumes "length efn = length ef" "n \<notin> set efn"
  shows "map_of (zip efn ef @ []) n = None"
  using assms by simp

lemma getField_schema_fields:
  assumes "length (extraFieldNames b) = length (extraFields b)"
    and "set (extraFieldNames b) \<inter> set checked_names = {}"
  shows "getField (Structure ident (schema_fields sf b)) ''value''
           = Some (ScalarArray (valueType b))"
    and "getField (Structure ident (schema_fields sf b)) ''channelName''
           = Some (ScalarArray pvString)"
    and "getField (Structure ident (schema_fields sf b)) ''severity''
           = (if severity b then Some (ScalarArray pvInt) else None)"
    and "getField (Structure ident (schema_fields sf b)) ''status''
           = (if status b then Some (ScalarArray pvInt) else None)"
    and "getField (Structure ident (schema_fields sf b)) ''message''
           = (if message b then Some (ScalarArray pvString) else None)"
    and "getField (Structure ident (schema_fields sf b)) ''secondsPastEpoch''
           = (if secondsPastEpoch b then Some (ScalarArray pvLong) else None)"
    and "getField (Structure ident (schema_fields sf b)) ''nanoseconds''
           = (if nanoseconds b then Some (ScalarArray pvInt) else None)"
    and "getField (Structure ident (schema_fields sf b)) ''userTag''
           = (if userTag b then Some (ScalarArray pvInt) else None)"
    and "getField (Structure ident (schema_fields sf b)) ''descriptor''
           = (if descriptor b then Some (Scalar pvString) else None)"
    and "getField (Structure ident (schema_fields sf b)) ''alarm''
           = (if alarm b then Some (StructureField (std_alarm sf)) else None)"
    and "getField (Structure ident (schema_fields sf b)) ''timeStamp''
           = (if timeStamp b then Some (StructureField (std_timeStamp sf)) else None)"
proof -
  have n: "n \<in> set checked_names \<Longrightarrow> map_of (zip (extraFieldNames b) (extraFields b) @ []) n = None"
    for n
    using assms by (intro map_of_extras) auto
  note e = n [unfolded checked_names_def, simplified]
  note u = getField_def schema_fields_unfold map_of_append_case map_of_if_single
  show "getField (Structure ident (schema_fields sf b)) ''value''
           = Some (ScalarArray (valueType b))"
    by (simp add: u)
  show "getField (Structure ident (schema_fields sf b)) ''channelName''
           = Some (ScalarArray pvString)"
    by (simp add: u)
  show "getField (Structure ident (schema_fields sf b)) ''severity''
           = (if severity b then Some (ScalarArray pvInt) else None)"
    using e by (simp add: u)
  show "getField (Structure ident (schema_fields sf b)) ''status''
           = (if status b then Some (ScalarArray pvInt) else None)"
    using e by (simp add: u)
  show "getField (Structure ident (schema_fields sf b)) ''message''
           = (if message b then Some (ScalarArray pvString) else None)"
    using e by (simp add: u)
  show "getField (Structure ident (schema_fields sf b)) ''secondsPastEpoch''
           = (if secondsPastEpoch b then Some (ScalarArray pvLong) else None)"
    using e by (simp add: u)
  show "getField (Structure ident (schema_fields sf b)) ''nanoseconds''
           = (if nanoseconds b then Some (ScalarArray pvInt) else None)"
    using e by (simp add: u)
  show "getField (Structure ident (schema_fields sf b)) ''userTag''
           = (if userTag b then Some (ScalarArray pvInt) else None)"
    using e by (simp add: u)
  show "getField (Structure ident (schema_fields sf b)) ''descriptor''
           = (if descriptor b then Some (Scalar pvString) else None)"
    using e by (simp add: u)
  show "getField (Structure ident (schema_fields sf b)) ''alarm''
           = (if alarm b then Some (StructureField (std_alarm sf)) else None)"
    using e by (simp add: u)
  show "getField (Structure ident (schema_fields sf b)) ''timeStamp''
           = (if timeStamp b then Some (StructureField (std_timeStamp sf)) else None)"
    using e by (simp add: u)
qed

lemma isCompatible_schema_fields:
  assumes "isAlarm ntField (StructureField (std_alarm sf))"
    and "isTimeStamp ntField (StructureField (std_timeStamp sf))"
    and "length (extraFieldNames b) = length (extraFields b)"
    and "set (extraFieldNames b) \<inter> set checked_names = {}"
  shows "isCompatible ntField (Some (Structure ident (schema_fields sf b)))"
  unfolding isCompatible_iff mandatory_match_def optional_match_def optional_types_def
  using assms(1,2) by (simp add: getField_schema_fields [OF assms(3,4)])

lemma wrapUnsafe_Some: "\<exists>w. wrapUnsafe (Some pv) = Inr (Some w)"
  by (simp add: wrapUnsafe_def new_NTScalarMultiChannel_def)

lemma wrap_compatible:
  "isCompatible_pv ntField (Some pv) \<Longrightarrow> wrap ntField (Some pv) = wrapUnsafe (Some pv)"
  by (simp add: wrap_def)

text \<open>
  C5. Round trip: for every combination of the optional-field toggles and every value element
  type, the instance the builder makes is compatible and wrapping it gives a wrapper, not the
  empty result. The standard alarm and time stamp sub-schemas are recognised by \<open>NTField\<close>,
  and the extra fields, if there are any, have names the compatibility predicate does not
  look up.
\<close>

theorem wrap_create_roundtrip:
  assumes "isAlarm ntField (StructureField (std_alarm standardField))"
    and "isTimeStamp ntField (StructureField (std_timeStamp standardField))"
    and "length (extraFieldNames b) = length (extraFields b)"
    and "set (extraFieldNames b) \<inter> set checked_names = {}"
  shows "\<exists>st pv w.
           fst (createStructure standardField b) = Inr st \<and>
           isCompatible ntField (Some st) \<and>
           fst (createPVStructure standardField b) = Inr pv \<and>
           getStructure pv = st \<and>
           fst (create standardField b) = Inr (Some w) \<and>
           pvNTScalarMultiChannel w = Some pv \<and>
           wrap ntField (pvNTScalarMultiChannel w) = Inr (Some w)"
proof -
  let ?st = "Structure URI (schema_fields standardField b)"
  let ?pv = "PVStructure ?st"
  have c: "createStructure standardField b = (Inr ?st, reset b)"
    by (rule createStructure_result [OF assms(3)])
  have i: "isCompatible ntField (Some ?st)"
    by (rule isCompatible_schema_fields [OF assms])
  have p: "createPVStructure standardField b = (Inr ?pv, reset b)"
    by (simp add: createPVStructure_def c pvDataCreate_createPVStructure_def)
  obtain w where w: "wrapUnsafe (Some ?pv) = Inr (Some w)"
    using wrapUnsafe_Some by blast
  have o: "pvNTScalarMultiChannel w = Some ?pv"
    using w by (auto simp: wrapUnsafe_def new_NTScalarMultiChannel_def)
  have k: "create standardField b = (Inr (Some w), reset b)"
    by (simp add: create_def p w)
  have r: "wrap ntField (Some ?pv) = Inr (Some w)"
    using i w by (simp add: wrap_def isCompatible_pv_def)
  show ?thesis
    using c i p k o r by auto
qed

theorem wrap_create_roundtrip_witness:
  "isAlarm example_NTField (StructureField (std_alarm example_StandardField)) \<and>
   isTimeStamp example_NTField (StructureField (std_timeStamp example_StandardField)) \<and>
   length (extraFieldNames (addAlarm (addTimeStamp (addStatus default_builder))))
     = length (extraFields (addAlarm (addTimeStamp (addStatus default_builder)))) \<and>
   set (extraFieldNames (addAlarm (addTimeStamp (addStatus default_builder))))
     \<inter> set checked_names = {} \<and>
   (\<exists>st pv w.
      fst (createStructure example_StandardField
             (addAlarm (addTimeStamp (addStatus default_builder)))) = Inr st \<and>
      isCompatible example_NTField (Some st) \<and>
      fst (createPVStructure example_StandardField
             (addAlarm (addTimeStamp (addStatus default_builder)))) = Inr pv \<and>
      getStructure pv = st \<and>
      fst (create example_StandardField
             (addAlarm (addTimeStamp (addStatus default_builder)))) = Inr (Some w) \<and>
      pvNTScalarMultiChannel w = Some pv \<and>
      wrap example_NTField (pvNTScalarMultiChannel w) = Inr (Some w))"
proof -
  let ?b = "addAlarm (addTimeStamp (addStatus default_builder))"
  have a: "isAlarm example_NTField (StructureField (std_alarm example_StandardField))"
    by (simp add: example_NTField_def)
  have t: "isTimeStamp example_NTField (StructureField (std_timeStamp example_StandardField))"
    by (simp add: example_NTField_def)
  have l: "length (extraFieldNames ?b) = length (extraFields ?b)"
    by (simp add: addAlarm_def addTimeStamp_def addStatus_def default_builder_def)
  have d: "set (extraFieldNames ?b) \<inter> set checked_names = {}"
    by (simp add: addAlarm_def addTimeStamp_def addStatus_def default_builder_def)
  show ?thesis
    using a t l d wrap_create_roundtrip [OF a t l d] by (intro conjI)
qed

text \<open>
  An extra field under a name the predicate looks up can make the schema incompatible: the
  restriction on the names of the extra fields is needed.
\<close>

lemma wrap_create_colliding_extra:
  "fst (createStructure example_StandardField (add ''severity'' (Scalar pvInt) default_builder))
     = Inr (Structure URI
         [(''value'', ScalarArray pvDouble), (''channelName'', ScalarArray pvString),
          (''isConnected'', ScalarArray pvBoolean), (''severity'', Scalar pvInt)]) \<and>
   isCompatible example_NTField (Some (Structure URI
         [(''value'', ScalarArray pvDouble), (''channelName'', ScalarArray pvString),
          (''isConnected'', ScalarArray pvBoolean), (''severity'', Scalar pvInt)])) = False"
proof -
  let ?b = "add ''severity'' (Scalar pvInt) default_builder"
  have l: "length (extraFieldNames ?b) = length (extraFields ?b)"
    by (simp add: add_def default_builder_def)
  have s: "schema_fields example_StandardField ?b =
         [(''value'', ScalarArray pvDouble), (''channelName'', ScalarArray pvString),
          (''isConnected'', ScalarArray pvBoolean), (''severity'', Scalar pvInt)]"
    by (simp add: schema_fields_def optional_fields_def add_def default_builder_def)
  have i: "isCompatible example_NTField (Some (Structure URI
         [(''value'', ScalarArray pvDouble), (''channelName'', ScalarArray pvString),
          (''isConnected'', ScalarArray pvBoolean), (''severity'', Scalar pvInt)])) = False"
    by (simp add: isCompatible_iff optional_match_def optional_types_def getField_def)
  show ?thesis
    using createStructure_result [OF l, of example_StandardField] s i by simp
qed


section \<open>The builders after a schema has been made\<close>

lemma createStructure_resets:
  assumes "length (extraFieldNames b) = length (extraFields b)"
  shows "snd (createStructure sf b) = reset b"
    and "snd (createPVStructure sf b) = reset b"
    and "snd (create sf b) = reset b"
    and "fst (createStructure sf (snd (createStructure sf b)))
           = Inr (Structure URI
               [(''value'', ScalarArray pvDouble), (''channelName'', ScalarArray pvString),
                (''isConnected'', ScalarArray pvBoolean)])"
proof -
  note c = createStructure_result [OF assms, of sf]
  show "snd (createStructure sf b) = reset b"
    by (simp add: c)
  show "snd (createPVStructure sf b) = reset b"
    by (simp add: createPVStructure_def c)
  show "snd (create sf b) = reset b"
    by (simp add: create_def createPVStructure_def c)
  have "length (extraFieldNames (reset b)) = length (extraFields (reset b))"
    by (simp add: reset_def)
  from createStructure_result [OF this, of sf]
  show "fst (createStructure sf (snd (createStructure sf b)))
           = Inr (Structure URI
               [(''value'', ScalarArray pvDouble), (''channelName'', ScalarArray pvString),
                (''isConnected'', ScalarArray pvBoolean)])"
    by (simp add: c reset_default schema_fields_default)
qed

lemma createStructure_nd_keeps_builder: "snd (createStructure_nd sf b) = b"
  unfolding createStructure_nd_def
  by (simp only: Let_def split_def snd_conv)

lemma createPVStructure_nd_keeps_builder: "snd (createPVStructure_nd sf b) = b"
  using createStructure_nd_keeps_builder [of sf b]
  by (cases "createStructure_nd sf b") (auto simp: createPVStructure_nd_def split: sum.splits)

lemma create_nd_keeps_builder: "snd (create_nd sf b) = b"
  using createPVStructure_nd_keeps_builder [of sf b]
  by (cases "createPVStructure_nd sf b") (auto simp: create_nd_def split: sum.splits)

lemma value_loop_fields:
  "value_loop \<lparr>fb_id = [], fb_fieldNames = [], fb_fields = []\<rparr> =
     \<lparr>fb_id = [],
      fb_fieldNames = [''booleanValue'', ''byteValue'', ''shortValue'', ''intValue'',
        ''longValue'', ''ubyteValue'', ''ushortValue'', ''uintValue'', ''ulongValue'',
        ''floatValue'', ''doubleValue''],
      fb_fields = [ScalarArray pvBoolean, ScalarArray pvByte, ScalarArray pvShort,
        ScalarArray pvInt, ScalarArray pvLong, ScalarArray pvUByte, ScalarArray pvUShort,
        ScalarArray pvUInt, ScalarArray pvULong, ScalarArray pvFloat, ScalarArray pvDouble]\<rparr>"
  by (simp add: value_loop_def ScalarTypes_def fb_addArray_scalar_def fb_add_def)

lemma extras_loop_nd_zero: "extras_loop_nd 0 0 efn ef fb = Inr fb"
  by (subst extras_loop_nd.simps) simp

lemma createStructure_nd_no_extras:
  assumes "extraFieldNames_nd b = []"
  shows "fst (createStructure_nd sf b) =
     Inr (Structure ''uri:ev4:nt/2014/pwd:NTNDArray''
       ([(''value'', UnionField (Union ''union''
            [(''booleanValue'', ScalarArray pvBoolean), (''byteValue'', ScalarArray pvByte),
             (''shortValue'', ScalarArray pvShort), (''intValue'', ScalarArray pvInt),
             (''longValue'', ScalarArray pvLong), (''ubyteValue'', ScalarArray pvUByte),
             (''ushortValue'', ScalarArray pvUShort), (''uintValue'', ScalarArray pvUInt),
             (''ulongValue'', ScalarArray pvULong), (''floatValue'', ScalarArray pvFloat),
             (''doubleValue'', ScalarArray pvDouble)])),
         (''codec'', StructureField (Structure ''codec_t''
            [(''name'', Scalar pvString), (''parameters'', UnionField (Union ''any'' []))])),
         (''compressedSize'', Scalar pvLong), (''uncompressedSize'', Scalar pvLong),
         (''dimension'', StructureArray (Structure ''dimension_t''
            [(''size'', Scalar pvInt), (''offset'', Scalar pvInt), (''fullSize'', Scalar pvInt),
             (''binning'', Scalar pvInt), (''reverse'', Scalar pvBoolean)])),
         (''uniqueId'', Scalar pvInt),
         (''dataTimeStamp'', StructureField (std_timeStamp sf)),
         (''attribute'', StructureArray (Structure ''uri:ev4:nt/2014/pwd:NTAttribute''
            [(''name'', Scalar pvString), (''value'', UnionField (Union ''any'' [])),
             (''descriptor'', Scalar pvString), (''sourceType'', Scalar pvInt),
             (''source'', Scalar pvString)]))]
        @ (if descriptor_nd b then [(''descriptor'', Scalar pvString)] else [])
        @ (if timeStamp_nd b then [(''timeStamp'', StructureField (std_timeStamp sf))] else [])
        @ (if alarm_nd b then [(''alarm'', StructureField (std_alarm sf))] else [])
        @ (if display_nd b then [(''display'', StructureField (std_display sf))] else [])))"
  unfolding createStructure_nd_def
  apply (simp add: Let_def fb_createUnion_def value_loop_fields fb_createStructure_def
        fb_add_def fb_add_scalar_def fb_addArray_def setId_def createFieldBuilder_def
      cong: let_weak_cong prod.case_cong_weak)
  apply (simp add: assms extras_loop_nd_zero NTNDArray_URI_def ntAttrStr_def
        createVariantUnion_def fb_createStructure_def)
  done

text \<open>
  C3. After \<open>createStructure\<close>, \<open>createPVStructure\<close> or \<open>create\<close> the flags and the extra
  fields of a builder are back at their defaults, and an immediate second \<open>createStructure\<close>
  gives the default schema. \<open>NTScalarMultiChannelBuilder\<close> does this (lemma
  \<open>createStructure_resets\<close>). \<open>NTNDArrayBuilder::createStructure\<close> never calls \<open>reset\<close>: the
  builder with \<open>addDescriptor\<close> set keeps the flag, and its second schema has the
  \<open>descriptor\<close> field that the default schema has not.
\<close>

theorem createStructure_nd_does_not_reset:
  "snd (createStructure_nd standardField (addDescriptor_nd (new_NTNDArrayBuilder uninit)))
     = addDescriptor_nd (new_NTNDArrayBuilder uninit) \<and>
   descriptor_nd (snd (createStructure_nd standardField
     (addDescriptor_nd (new_NTNDArrayBuilder uninit)))) = True \<and>
   descriptor_nd (reset_nd (addDescriptor_nd (new_NTNDArrayBuilder uninit))) = False \<and>
   (\<exists>st. fst (createStructure_nd standardField
            (snd (createStructure_nd standardField
               (addDescriptor_nd (new_NTNDArrayBuilder uninit))))) = Inr st \<and>
         getField st ''descriptor'' = Some (Scalar pvString)) \<and>
   (\<exists>st. fst (createStructure_nd standardField (new_NTNDArrayBuilder uninit)) = Inr st \<and>
         getField st ''descriptor'' = None)"
proof -
  let ?d = "new_NTNDArrayBuilder uninit"
  let ?b = "addDescriptor_nd ?d"
  have k: "snd (createStructure_nd standardField ?b) = ?b"
    by (rule createStructure_nd_keeps_builder)
  have f: "descriptor_nd ?b = True" "descriptor_nd (reset_nd ?b) = False"
    by (simp_all add: addDescriptor_nd_def reset_nd_def)
  have e: "extraFieldNames_nd ?b = []" "extraFieldNames_nd ?d = []"
    by (simp_all add: addDescriptor_nd_def new_NTNDArrayBuilder_def reset_nd_def)
  have v: "timeStamp_nd ?b = False" "alarm_nd ?b = False" "display_nd ?b = False"
    "descriptor_nd ?d = False" "timeStamp_nd ?d = False" "alarm_nd ?d = False"
    "display_nd ?d = False"
    by (simp_all add: addDescriptor_nd_def new_NTNDArrayBuilder_def reset_nd_def)
  have 1: "\<exists>st. fst (createStructure_nd standardField ?b) = Inr st \<and>
         getField st ''descriptor'' = Some (Scalar pvString)"
    using createStructure_nd_no_extras [OF e(1), of standardField]
    by (auto simp: f v getField_def)
  have 2: "\<exists>st. fst (createStructure_nd standardField ?d) = Inr st \<and>
         getField st ''descriptor'' = None"
    using createStructure_nd_no_extras [OF e(2), of standardField]
    by (auto simp: v getField_def)
  show ?thesis
    using k f 1 2 by simp
qed


section \<open>The compatibility predicate of NTNDArray\<close>

lemma compare_eq_0_iff: "(compare a b = 0) = (a = b)"
  by (induction a b rule: compare.induct) auto

lemma logical_not_compare: "(logical_not (compare a b) \<noteq> 0) = (a = b)"
  by (simp add: logical_not_def compare_eq_0_iff)

lemma check_descriptor_nd:
  "(getSubField pv n \<noteq> None \<and> getSubField_as c pv n = None)
   = (\<not> (case getSubField pv n of
             None \<Rightarrow> True
           | Some pvField \<Rightarrow> instance_of (getFieldOf pvField) c))"
  by (simp add: getSubField_as_def dynamic_pointer_cast_def split: option.splits)

lemma is_compatible_steps:
  "is_compatible ntField (Some pv) =
     (if \<not> reaches_dimension ntField pv then Inr False
      else (case getSubField_PVStructureArray pv ''dimension'' of
              None \<Rightarrow> Inl NullDereference
            | Some dimensionStruc \<Rightarrow>
               (if \<not> reaches_attribute ntField pv then Inr False
                else (case getSubField_PVStructureArray pv ''attribute'' of
                        None \<Rightarrow> Inl NullDereference
                      | Some attributeStruc \<Rightarrow>
                          Inr (getID attributeStruc \<noteq> ''ntAttrStr'')))))"
  unfolding is_compatible_def reaches_attribute_def reaches_dimension_def
    mandatory_before_dimension_def optional_before_dimension_def
  unfolding check_descriptor_nd check_standard compare_eq_0_iff logical_not_compare
  by (cases "getSubField_PVStructure pv ''codec''";
      cases "getSubField_PVStructureArray pv ''dimension''";
      cases "getSubField_PVStructureArray pv ''attribute''"; simp)


lemma ntAttrStr_not_literal: "ntAttrStr \<noteq> ''ntAttrStr''"
  by (simp add: ntAttrStr_def)

lemmas example_lookups =
  getSubField_as_def getSubField_def getField_def getSubField_PVStructure_def
  getSubField_PVStructureArray_def dynamic_pointer_cast_def example_ndarray_def
  createVariantUnion_def

lemma example_ndarray_reaches_attribute:
  "reaches_attribute example_NTField
     (PVStructure (Structure ident (example_ndarray ''dimension_t'' attributeId)))"
  by (simp add: reaches_attribute_def reaches_dimension_def mandatory_before_dimension_def
        optional_before_dimension_def example_lookups)

lemma example_ndarray_attribute:
  "getSubField_PVStructureArray
     (PVStructure (Structure ident (example_ndarray dimensionId attributeId))) ''attribute''
   = Some (Structure attributeId [])"
  by (simp add: example_lookups)

text \<open>
  C7. The comparison that validates the identifier of the \<open>attribute\<close> elements is made with
  the literal \<open>"ntAttrStr"\<close>, not with the identifier of NTAttribute: on every input that
  reaches it with an identifier other than that literal, whatever the identifier is, the
  check passes and the predicate returns true.
\<close>

theorem attribute_check_passes_unless_literal:
  assumes "reaches_attribute ntField pv"
    and "getSubField_PVStructureArray pv ''attribute'' = Some attributeStruc"
    and "getID attributeStruc \<noteq> ''ntAttrStr''"
  shows "is_compatible ntField (Some pv) = Inr True"
proof -
  have d: "reaches_dimension ntField pv"
    using assms(1) by (simp add: reaches_attribute_def)
  obtain dimensionStruc where
    s: "getSubField_PVStructureArray pv ''dimension'' = Some dimensionStruc"
    using assms(1) by (auto simp: reaches_attribute_def split: option.splits)
  show ?thesis
    by (simp add: is_compatible_steps d s assms)
qed

theorem attribute_check_passes_unless_literal_witness:
  "reaches_attribute example_NTField
     (PVStructure (Structure NTNDArray_URI (example_ndarray ''dimension_t'' ''not_an_attribute''))) \<and>
   getSubField_PVStructureArray
     (PVStructure (Structure NTNDArray_URI (example_ndarray ''dimension_t'' ''not_an_attribute'')))
     ''attribute'' = Some (Structure ''not_an_attribute'' []) \<and>
   getID (Structure ''not_an_attribute'' []) \<noteq> ''ntAttrStr'' \<and>
   ''not_an_attribute'' \<noteq> ntAttrStr \<and>
   is_compatible example_NTField
     (Some (PVStructure (Structure NTNDArray_URI
        (example_ndarray ''dimension_t'' ''not_an_attribute'')))) = Inr True"
proof -
  let ?pv = "PVStructure (Structure NTNDArray_URI
               (example_ndarray ''dimension_t'' ''not_an_attribute''))"
  have r: "reaches_attribute example_NTField ?pv"
    by (rule example_ndarray_reaches_attribute)
  have a: "getSubField_PVStructureArray ?pv ''attribute'' = Some (Structure ''not_an_attribute'' [])"
    by (rule example_ndarray_attribute)
  have i: "getID (Structure ''not_an_attribute'' []) \<noteq> ''ntAttrStr''"
    by simp
  have n: "''not_an_attribute'' \<noteq> ntAttrStr"
    by (simp add: ntAttrStr_def)
  show ?thesis
    using r a i n attribute_check_passes_unless_literal [OF r a i] by (intro conjI)
qed

text \<open>
  Without the restriction to identifiers other than the literal the statement fails: an
  input whose \<open>attribute\<close> elements carry the literal as their identifier reaches the
  comparison, and the predicate returns false.
\<close>

theorem attribute_check_fails_on_literal:
  "reaches_attribute example_NTField
     (PVStructure (Structure NTNDArray_URI (example_ndarray ''dimension_t'' ''ntAttrStr''))) \<and>
   getSubField_PVStructureArray
     (PVStructure (Structure NTNDArray_URI (example_ndarray ''dimension_t'' ''ntAttrStr'')))
     ''attribute'' = Some (Structure ''ntAttrStr'' []) \<and>
   is_compatible example_NTField
     (Some (PVStructure (Structure NTNDArray_URI
        (example_ndarray ''dimension_t'' ''ntAttrStr'')))) = Inr False"
proof -
  let ?pv = "PVStructure (Structure NTNDArray_URI (example_ndarray ''dimension_t'' ''ntAttrStr''))"
  have r: "reaches_attribute example_NTField ?pv"
    by (rule example_ndarray_reaches_attribute)
  have a: "getSubField_PVStructureArray ?pv ''attribute'' = Some (Structure ''ntAttrStr'' [])"
    by (rule example_ndarray_attribute)
  have d: "reaches_dimension example_NTField ?pv"
    using r by (simp add: reaches_attribute_def)
  have s: "getSubField_PVStructureArray ?pv ''dimension'' = Some (Structure ''dimension_t'' [])"
    by (simp add: example_lookups)
  have "is_compatible example_NTField (Some ?pv) = Inr False"
    by (simp add: is_compatible_steps r a d s)
  then show ?thesis
    using r a by (intro conjI)
qed

text \<open>
  C8. \<open>NTNDArray::is_compatible\<close> is not total on non-null inputs. On every instance on
  which all the checks before the lookup of \<open>dimension\<close> pass (the mandatory fields are
  there and the optional descriptor, alarm, timeStamp and display have their types when
  present) and which has no \<open>dimension\<close> array of structures, the null handle is
  dereferenced; and likewise for \<open>attribute\<close> when all the checks before its lookup pass.
\<close>

theorem is_compatible_dereferences_null_array:
  "(reaches_dimension ntField pv \<and> getSubField_PVStructureArray pv ''dimension'' = None
      \<longrightarrow> is_compatible ntField (Some pv) = Inl NullDereference) \<and>
   (reaches_attribute ntField pv \<and> getSubField_PVStructureArray pv ''attribute'' = None
      \<longrightarrow> is_compatible ntField (Some pv) = Inl NullDereference)"
proof (intro conjI impI)
  assume "reaches_dimension ntField pv \<and> getSubField_PVStructureArray pv ''dimension'' = None"
  then show "is_compatible ntField (Some pv) = Inl NullDereference"
    by (simp add: is_compatible_steps)
next
  assume a: "reaches_attribute ntField pv \<and> getSubField_PVStructureArray pv ''attribute'' = None"
  then have d: "reaches_dimension ntField pv"
    by (simp add: reaches_attribute_def)
  obtain dimensionStruc where
    s: "getSubField_PVStructureArray pv ''dimension'' = Some dimensionStruc"
    using a by (auto simp: reaches_attribute_def split: option.splits)
  show "is_compatible ntField (Some pv) = Inl NullDereference"
    using a by (simp add: is_compatible_steps d s)
qed

theorem is_compatible_dereferences_null_array_witness:
  "reaches_dimension example_NTField
     (PVStructure (Structure NTNDArray_URI
        (filter (\<lambda>(name, f). name \<noteq> ''dimension'') (example_ndarray ''dimension_t'' ntAttrStr)))) \<and>
   getSubField_PVStructureArray
     (PVStructure (Structure NTNDArray_URI
        (filter (\<lambda>(name, f). name \<noteq> ''dimension'') (example_ndarray ''dimension_t'' ntAttrStr))))
     ''dimension'' = None \<and>
   is_compatible example_NTField
     (Some (PVStructure (Structure NTNDArray_URI
        (filter (\<lambda>(name, f). name \<noteq> ''dimension'') (example_ndarray ''dimension_t'' ntAttrStr)))))
     = Inl NullDereference \<and>
   reaches_attribute example_NTField
     (PVStructure (Structure NTNDArray_URI
        (filter (\<lambda>(name, f). name \<noteq> ''attribute'') (example_ndarray ''dimension_t'' ntAttrStr)))) \<and>
   getSubField_PVStructureArray
     (PVStructure (Structure NTNDArray_URI
        (filter (\<lambda>(name, f). name \<noteq> ''attribute'') (example_ndarray ''dimension_t'' ntAttrStr))))
     ''attribute'' = None \<and>
   is_compatible example_NTField
     (Some (PVStructure (Structure NTNDArray_URI
        (filter (\<lambda>(name, f). name \<noteq> ''attribute'') (example_ndarray ''dimension_t'' ntAttrStr)))))
     = Inl NullDereference"
proof -
  let ?d = "PVStructure (Structure NTNDArray_URI
        (filter (\<lambda>(name, f). name \<noteq> ''dimension'') (example_ndarray ''dimension_t'' ntAttrStr)))"
  let ?a = "PVStructure (Structure NTNDArray_URI
        (filter (\<lambda>(name, f). name \<noteq> ''attribute'') (example_ndarray ''dimension_t'' ntAttrStr)))"
  have rd: "reaches_dimension example_NTField ?d"
    by (simp add: reaches_dimension_def mandatory_before_dimension_def
          optional_before_dimension_def example_lookups)
  have nd: "getSubField_PVStructureArray ?d ''dimension'' = None"
    by (simp add: example_lookups)
  have ra: "reaches_attribute example_NTField ?a"
    by (simp add: reaches_attribute_def reaches_dimension_def mandatory_before_dimension_def
          optional_before_dimension_def example_lookups)
  have na: "getSubField_PVStructureArray ?a ''attribute'' = None"
    by (simp add: example_lookups)
  from is_compatible_dereferences_null_array [of example_NTField ?d] rd nd
  have 1: "is_compatible example_NTField (Some ?d) = Inl NullDereference" by blast
  from is_compatible_dereferences_null_array [of example_NTField ?a] ra na
  have 2: "is_compatible example_NTField (Some ?a) = Inl NullDereference" by blast
  show ?thesis
    using rd nd 1 ra na 2 by (intro conjI)
qed

text \<open>
  The mandatory fields alone are not enough: on an instance that has the mandatory fields
  looked up before \<open>dimension\<close>, has no \<open>dimension\<close>, and has a \<open>descriptor\<close> that is not a
  string, the predicate returns false at the descriptor and no null handle is used.
\<close>

theorem is_compatible_returns_before_dimension:
  "mandatory_before_dimension
     (PVStructure (Structure NTNDArray_URI
        ((''descriptor'', ScalarArray pvInt) #
         filter (\<lambda>(name, f). name \<noteq> ''dimension'') (example_ndarray ''dimension_t'' ntAttrStr)))) \<and>
   getSubField_PVStructureArray
     (PVStructure (Structure NTNDArray_URI
        ((''descriptor'', ScalarArray pvInt) #
         filter (\<lambda>(name, f). name \<noteq> ''dimension'') (example_ndarray ''dimension_t'' ntAttrStr))))
     ''dimension'' = None \<and>
   is_compatible example_NTField
     (Some (PVStructure (Structure NTNDArray_URI
        ((''descriptor'', ScalarArray pvInt) #
         filter (\<lambda>(name, f). name \<noteq> ''dimension'') (example_ndarray ''dimension_t'' ntAttrStr)))))
     = Inr False"
proof -
  let ?pv = "PVStructure (Structure NTNDArray_URI
        ((''descriptor'', ScalarArray pvInt) #
         filter (\<lambda>(name, f). name \<noteq> ''dimension'') (example_ndarray ''dimension_t'' ntAttrStr)))"
  have m: "mandatory_before_dimension ?pv"
    by (simp add: mandatory_before_dimension_def example_lookups)
  have n: "getSubField_PVStructureArray ?pv ''dimension'' = None"
    by (simp add: example_lookups)
  have o: "\<not> optional_before_dimension example_NTField ?pv"
    by (simp add: optional_before_dimension_def example_lookups)
  have "is_compatible example_NTField (Some ?pv) = Inr False"
    using o by (simp add: is_compatible_steps reaches_dimension_def)
  then show ?thesis
    using m n by (intro conjI)
qed


section \<open>The wrapping factories\<close>

lemma wrap_Some_iff: "(wrap ntField s = Inr None) = (\<not> isCompatible_pv ntField s)"
proof (cases "isCompatible_pv ntField s")
  case False
  then show ?thesis by (simp add: wrap_def)
next
  case True
  then obtain pv where s: "s = Some pv"
    by (cases s) (auto simp: isCompatible_pv_def)
  obtain w where "wrapUnsafe (Some pv) = Inr (Some w)"
    using wrapUnsafe_Some by blast
  then show ?thesis
    using True s by (simp add: wrap_def)
qed

lemma wrap_total: "\<exists>r. wrap ntField s = Inr r"
proof (cases "isCompatible_pv ntField s")
  case False
  then show ?thesis by (simp add: wrap_def)
next
  case True
  then obtain pv where s: "s = Some pv"
    by (cases s) (auto simp: isCompatible_pv_def)
  obtain w where "wrapUnsafe (Some pv) = Inr (Some w)"
    using wrapUnsafe_Some by blast
  then show ?thesis
    using True s by (simp add: wrap_def)
qed

lemma narrow_None_iff:
  "(narrow s = Inr None) =
   (case s of None \<Rightarrow> True | Some pv \<Rightarrow> getID (getStructure pv) \<noteq> NTNDArray_URI)"
  by (simp add: narrow_def is_a_def narrow_unsafe_def split: option.splits)

lemma narrow_total: "\<exists>r. narrow s = Inr r"
  by (simp add: narrow_def is_a_def split: option.splits)

text \<open>
  C4. \<open>NTScalarMultiChannel::wrap\<close> gives the empty result exactly when \<open>isCompatible\<close> is
  false on the instance, and \<open>wrapUnsafe\<close> gives a wrapper for every instance.
  \<open>NTNDArray::narrow\<close> does not call \<open>is_compatible\<close>: it gives the empty result exactly when
  the handle is null or the identifier of the schema is not that of NTNDArray (\<open>is_a\<close>), and
  \<open>narrow_unsafe\<close> always gives a wrapper.
\<close>

theorem wrap_checks_and_narrow_compares_id:
  "(wrap ntField s = Inr None) = (\<not> isCompatible_pv ntField s) \<and>
   (\<exists>r. wrap ntField s = Inr r) \<and>
   (\<forall>pv. \<exists>w. wrapUnsafe (Some pv) = Inr (Some w)) \<and>
   (narrow s = Inr None) =
     (case s of None \<Rightarrow> True | Some pv \<Rightarrow> is_a (Some (getStructure pv)) = Inr False) \<and>
   (\<exists>r. narrow s = Inr r) \<and>
   (\<exists>w. narrow_unsafe s = Some w)"
proof -
  have n: "(narrow s = Inr None) =
     (case s of None \<Rightarrow> True | Some pv \<Rightarrow> is_a (Some (getStructure pv)) = Inr False)"
    by (simp add: narrow_None_iff is_a_def split: option.splits)
  have u: "\<exists>w. narrow_unsafe s = Some w"
    by (simp add: narrow_unsafe_def)
  show ?thesis
    using wrap_Some_iff [of ntField s] wrap_total [of ntField s] wrapUnsafe_Some n
      narrow_total [of s] u
    by (intro conjI allI)
qed

theorem wrap_checks_and_narrow_compares_id_witness:
  "isCompatible_pv example_NTField (Some (PVStructure (Structure URI
      [(''value'', ScalarArray pvDouble), (''channelName'', ScalarArray pvString)]))) \<and>
   wrap example_NTField (Some (PVStructure (Structure URI
      [(''value'', ScalarArray pvDouble), (''channelName'', ScalarArray pvString)])))
     \<noteq> Inr None \<and>
   is_a (Some (Structure URI
      [(''value'', ScalarArray pvDouble), (''channelName'', ScalarArray pvString)])) = Inr False \<and>
   narrow (Some (PVStructure (Structure URI
      [(''value'', ScalarArray pvDouble), (''channelName'', ScalarArray pvString)]))) = Inr None"
proof -
  let ?pv = "PVStructure (Structure URI
      [(''value'', ScalarArray pvDouble), (''channelName'', ScalarArray pvString)])"
  note t = wrap_checks_and_narrow_compares_id [of example_NTField "Some ?pv"]
  have c: "isCompatible_pv example_NTField (Some ?pv)"
    by (simp add: isCompatible_pv_def isCompatible_iff mandatory_match_def optional_match_def
          optional_types_def getField_def)
  have a: "is_a (Some (getStructure ?pv)) = Inr False"
    by (simp add: is_a_def URI_def NTNDArray_URI_def)
  from t c have 1: "wrap example_NTField (Some ?pv) \<noteq> Inr None" by blast
  from t a have 2: "narrow (Some ?pv) = Inr None" by simp
  show ?thesis
    using c 1 a 2 by simp
qed

text \<open>
  \<open>narrow\<close> and \<open>is_compatible\<close> disagree in both directions: an instance with the
  identifier of NTNDArray and no field at all is wrapped although \<open>is_compatible\<close> is false
  on it, and an instance with all the fields under another identifier is refused although
  \<open>is_compatible\<close> is true on it.
\<close>

theorem narrow_ignores_is_compatible:
  "narrow (Some (PVStructure (Structure NTNDArray_URI [])))
     = Inr (Some \<lparr>pvNTNDArray = Some (PVStructure (Structure NTNDArray_URI []))\<rparr>) \<and>
   is_compatible example_NTField (Some (PVStructure (Structure NTNDArray_URI []))) = Inr False \<and>
   narrow (Some (PVStructure (Structure ''other'' (example_ndarray ''dimension_t'' ntAttrStr))))
     = Inr None \<and>
   is_compatible example_NTField
     (Some (PVStructure (Structure ''other'' (example_ndarray ''dimension_t'' ntAttrStr))))
     = Inr True"
proof -
  let ?e = "PVStructure (Structure NTNDArray_URI [])"
  let ?o = "PVStructure (Structure ''other'' (example_ndarray ''dimension_t'' ntAttrStr))"
  have 1: "narrow (Some ?e) = Inr (Some \<lparr>pvNTNDArray = Some ?e\<rparr>)"
    by (simp add: narrow_def is_a_def narrow_unsafe_def new_NTNDArray_def)
  have 2: "is_compatible example_NTField (Some ?e) = Inr False"
    by (simp add: is_compatible_def getSubField_as_def getSubField_def getField_def)
  have 3: "narrow (Some ?o) = Inr None"
    by (simp add: narrow_None_iff NTNDArray_URI_def)
  have r: "reaches_attribute example_NTField ?o"
    by (rule example_ndarray_reaches_attribute)
  have d: "reaches_dimension example_NTField ?o"
    using r by (simp add: reaches_attribute_def)
  have s: "getSubField_PVStructureArray ?o ''dimension'' = Some (Structure ''dimension_t'' [])"
    by (simp add: example_lookups)
  have 4: "is_compatible example_NTField (Some ?o) = Inr True"
    by (simp add: is_compatible_steps r d s example_ndarray_attribute ntAttrStr_not_literal)
  show ?thesis
    using 1 2 3 4 by (intro conjI)
qed

end
